theory Spec2Isabelle
  imports Complex_Main "HOL-Library.AList"
begin

section \<open>HealthScoreAI: the extraction-to-report pipeline of \<open>app.py\<close>\<close>

text \<open>
  Modelling conventions.
  \<^item> Python floats are modelled as rationals (\<open>rat\<close>): every constant of the registries is a
    decimal literal, and the functions below only add, subtract, divide by a positive
    integer and compare. The arithmetic of the classifier's band is exact. The mean of the
    merger is computed as the program computes it, every addition and the division rounded
    to the nearest double (\<open>round_double\<close>). NaN and the infinities have no counterpart, so
    every value is finite: a sum beyond the range of the doubles, which is \<open>inf\<close> in the
    program, is outside the model.
  \<^item> A Python \<open>dict\<close> is an association list in insertion order, looked up with \<open>map_of\<close>
    and written with \<open>AList.update\<close> (an existing key keeps its place, a new key goes last).
  \<^item> A Python \<open>set\<close> of strings is a duplicate-free list in insertion order; the order in
    which Python enumerates a set is not specified, so the theorems speak of \<open>set\<close> of the
    result wherever a set was enumerated.
  \<^item> Strings are byte lists. \<open>lower\<close>, \<open>strip\<close> and \<open>title\<close> are modelled on ASCII.
  \<^item> An exception is a value \<open>Inl e\<close> of a sum type.
\<close>

subsection \<open>String helpers (Python \<open>str\<close> methods)\<close>

definition lower_char :: "char \<Rightarrow> char" where
  "lower_char c = (let n = (of_char c :: int) in if 65 \<le> n \<and> n \<le> 90 then char_of (n + 32) else c)"

definition upper_char :: "char \<Rightarrow> char" where
  "upper_char c = (let n = (of_char c :: int) in if 97 \<le> n \<and> n \<le> 122 then char_of (n - 32) else c)"

definition is_alpha :: "char \<Rightarrow> bool" where
  "is_alpha c = (let n = (of_char c :: int) in (65 \<le> n \<and> n \<le> 90) \<or> (97 \<le> n \<and> n \<le> 122))"

definition is_space :: "char \<Rightarrow> bool" where
  "is_space c = (let n = (of_char c :: int) in n = 32 \<or> (9 \<le> n \<and> n \<le> 13))"

definition lower :: "string \<Rightarrow> string" where
  "lower s = map lower_char s"

definition strip :: "string \<Rightarrow> string" where
  "strip s = rev (dropWhile is_space (rev (dropWhile is_space s)))"

text \<open>\<open>s.replace(c, r)\<close> for a one-character \<open>c\<close>.\<close>

definition replace :: "char \<Rightarrow> string \<Rightarrow> string \<Rightarrow> string" where
  "replace c r s = concat (map (\<lambda>x. if x = c then r else [x]) s)"

text \<open>\<open>s.title()\<close>: the first letter of every run of letters in upper case, the rest in lower case.\<close>

fun title_aux :: "bool \<Rightarrow> string \<Rightarrow> string" where
  "title_aux prev [] = []"
| "title_aux prev (c # cs) =
     (if is_alpha c then (if prev then lower_char c else upper_char c) # title_aux True cs
      else c # title_aux False cs)"

definition title :: "string \<Rightarrow> string" where
  "title s = title_aux False s"

fun starts_with :: "string \<Rightarrow> string \<Rightarrow> bool" where
  "starts_with s [] = True"
| "starts_with [] (p # ps) = False"
| "starts_with (c # cs) (p # ps) = (c = p \<and> starts_with cs ps)"

text \<open>\<open>needle in haystack\<close> on strings: contiguous containment.\<close>

fun str_in :: "string \<Rightarrow> string \<Rightarrow> bool" where
  "str_in needle [] = (needle = [])"
| "str_in needle (c # cs) = (starts_with (c # cs) needle \<or> str_in needle cs)"

subsection \<open>The biomarker registry \<open>BIOMARKER_RULES\<close>\<close>

text \<open>
  The \<open>insights\<close> texts of the registry are read by no function of the program and are
  left out of the record.
\<close>

record biomarker_info =
  unit :: string
  acceptable_range :: string
  acceptable_min :: rat
  acceptable_max :: rat
  high_threshold :: rat
  rule_keywords :: "string list"

definition mk_info :: "string \<Rightarrow> string \<Rightarrow> rat \<Rightarrow> rat \<Rightarrow> rat \<Rightarrow> string list \<Rightarrow> biomarker_info" where
  "mk_info u r lo hi ht kws =
     \<lparr>unit = u, acceptable_range = r, acceptable_min = lo, acceptable_max = hi,
      high_threshold = ht, rule_keywords = kws\<rparr>"

definition BIOMARKER_RULES :: "(string \<times> biomarker_info) list" where
  "BIOMARKER_RULES =
   [(''glucose'', mk_info ''mg/dL'' ''70-100'' 70 100 126
       [''glucose'', ''blood glucose'', ''fasting glucose'', ''random glucose'']),
    (''hba1c'', mk_info ''%'' ''4.0-5.6'' 4.0 5.6 6.5
       [''hba1c'', ''hemoglobin a1c'', ''glycated hemoglobin'', ''a1c'']),
    (''total_cholesterol'', mk_info ''mg/dL'' ''<200'' 0 200 240
       [''total cholesterol'', ''cholesterol total'', ''chol total'', ''tc'']),
    (''ldl'', mk_info ''mg/dL'' ''<100'' 0 100 160
       [''ldl'', ''ldl cholesterol'', ''low density lipoprotein'', ''bad cholesterol'']),
    (''hdl'', mk_info ''mg/dL'' ''>40 (M), >50 (F)'' 40 1000 1000
       [''hdl'', ''hdl cholesterol'', ''high density lipoprotein'', ''good cholesterol'']),
    (''hemoglobin'', mk_info ''g/dL'' ''12-18'' 12 18 20
       [''hemoglobin'', ''hgb'', ''hb'', ''haemoglobin'']),
    (''hematocrit'', mk_info ''%'' ''36-50'' 36 50 55
       [''hematocrit'', ''hct'', ''packed cell volume'', ''pcv'']),
    (''tsh'', mk_info ''mIU/L'' ''0.4-4.0'' 0.4 4.0 10.0
       [''tsh'', ''thyroid stimulating hormone'', ''thyrotropin'']),
    (''vitamin_d'', mk_info ''ng/mL'' ''30-100'' 30 100 150
       [''vitamin d'', ''vit d'', ''25-hydroxyvitamin d'', ''25(oh)d'', ''cholecalciferol'']),
    (''vitamin_b12'', mk_info ''pg/mL'' ''200-900'' 200 900 1000
       [''vitamin b12'', ''vit b12'', ''cobalamin'', ''b-12'']),
    (''vitamin_c'', mk_info ''mg/dL'' ''0.6-2.0'' 0.6 2.0 3.0
       [''vitamin c'', ''vit c'', ''ascorbic acid'', ''ascorbate'']),
    (''vitamin_a'', mk_info (CHR 0xCE # CHR 0xBC # ''g/dL'') ''20-60'' 20 60 100
       [''vitamin a'', ''vit a'', ''retinol'', ''beta carotene'']),
    (''systolic_bp'', mk_info ''mmHg'' ''90-120'' 90 120 140
       [''systolic'', ''systolic blood pressure'', ''sbp'', ''sys bp'']),
    (''diastolic_bp'', mk_info ''mmHg'' ''60-80'' 60 80 90
       [''diastolic'', ''diastolic blood pressure'', ''dbp'', ''dias bp'']),
    (''heart_rate'', mk_info ''bpm'' ''60-100'' 60 100 120
       [''heart rate'', ''pulse'', ''hr'', ''beats per minute'', ''bpm'']),
    (''creatinine'', mk_info ''mg/dL'' ''0.6-1.3'' 0.6 1.3 2.0
       [''creatinine'', ''serum creatinine'', ''creat''])]"

subsection \<open>Range Classifier: \<open>calculate_optimal_range\<close> and \<open>analyze_biomarker\<close>\<close>

definition calculate_optimal_range :: "rat \<Rightarrow> rat \<Rightarrow> rat \<times> rat" where
  "calculate_optimal_range amin amax =
     (let range_size = amax - amin;
          margin = range_size / 5;
          optimal_min = amin + margin;
          optimal_max = amax - margin
      in (optimal_min, optimal_max))"

text \<open>
  The display of the optimal range is an f-string with \<open>:.1f\<close>; the rounding to one decimal
  is not modelled, the bounds that are printed are kept as numbers.
\<close>

datatype range_display = Under rat | Over rat | Span rat rat

record analysis =
  a_name :: string
  a_value :: rat
  a_unit :: string
  a_acceptable_range :: string
  a_optimal_range :: "range_display option"
  status :: string
  insight :: string
  status_category :: string
  is_optimal :: bool

definition classify :: "biomarker_info \<Rightarrow> rat \<Rightarrow> string \<times> string \<times> string" where
  "classify rules v =
     (let (optimal_min, optimal_max) =
            calculate_optimal_range (acceptable_min rules) (acceptable_max rules);
          disp = acceptable_range rules
      in
      if optimal_min \<le> v \<and> v \<le> optimal_max then
        (''Optimal'', ''This is within optimal range'', ''optimal'')
      else if acceptable_min rules \<le> v \<and> v \<le> acceptable_max rules then
        (if v < optimal_min then
           (''Below Optimal'',
            ''This is below optimal range; acceptable range is '' @ disp, ''below_optimal'')
         else if v > optimal_max then
           (''Above Optimal'',
            ''This is above optimal range; acceptable range is '' @ disp, ''above_optimal'')
         else (''Optimal'', ''This is within optimal range'', ''optimal''))
      else if v < acceptable_min rules then
        (''Below Acceptable'',
         ''This is below acceptable range; acceptable range is '' @ disp, ''below_acceptable'')
      else if v > acceptable_max rules then
        (if v \<ge> high_threshold rules then
           (''Significantly High'',
            ''This is significantly above acceptable range; acceptable range is '' @ disp,
            ''significantly_high'')
         else
           (''Above Acceptable'',
            ''This is above acceptable range; acceptable range is '' @ disp,
            ''above_acceptable''))
      else (''Normal'', ''This is within optimal range'', ''optimal''))"

definition optimal_range_display :: "biomarker_info \<Rightarrow> range_display" where
  "optimal_range_display rules =
     (let (optimal_min, optimal_max) =
            calculate_optimal_range (acceptable_min rules) (acceptable_max rules)
      in
      if starts_with (acceptable_range rules) ''<'' then
        Under (acceptable_max rules - acceptable_max rules * 0.2)
      else if starts_with (acceptable_range rules) ''>'' then
        Over (acceptable_min rules + acceptable_min rules * 0.25)
      else Span optimal_min optimal_max)"

definition display_name :: "string \<Rightarrow> string" where
  "display_name biomarker_key = title (replace CHR ''_'' '' '' biomarker_key)"

definition analyze_biomarker :: "string \<Rightarrow> rat \<Rightarrow> analysis option" where
  "analyze_biomarker biomarker_key v =
     (case map_of BIOMARKER_RULES biomarker_key of
        None \<Rightarrow> None
      | Some rules \<Rightarrow>
          (let (st, ins, cat) = classify rules v
           in Some \<lparr>a_name = display_name biomarker_key,
                    a_value = v,
                    a_unit = unit rules,
                    a_acceptable_range = acceptable_range rules,
                    a_optimal_range = Some (optimal_range_display rules),
                    status = st,
                    insight = ins,
                    status_category = cat,
                    is_optimal = (cat = ''optimal'')\<rparr>))"

subsection \<open>Disease Rule Evaluator: \<open>DISEASE_RULES\<close>, \<open>evaluate_disease_condition\<close>, \<open>detect_diseases\<close>\<close>

datatype py_error = TypeError | IndexError | KeyError

text \<open>The \<open>value\<close> of a condition is a number, or a list \<open>[lo, hi]\<close> for \<open>between\<close>.\<close>

datatype threshold = Num rat | Bounds "rat list"

record condition =
  biomarker :: string
  operator :: string
  cond_value :: threshold

definition cond :: "string \<Rightarrow> string \<Rightarrow> threshold \<Rightarrow> condition" where
  "cond b op t = \<lparr>biomarker = b, operator = op, cond_value = t\<rparr>"

record disease_info =
  name :: string
  conditions :: "condition list"
  logic :: string
  priority :: string
  reasoning :: string
  symptoms :: "string list"

definition mk_rule ::
  "string \<Rightarrow> condition list \<Rightarrow> string \<Rightarrow> string \<Rightarrow> string \<Rightarrow> string list \<Rightarrow> disease_info" where
  "mk_rule n cs l p r ss =
     \<lparr>name = n, conditions = cs, logic = l, priority = p, reasoning = r, symptoms = ss\<rparr>"

definition DISEASE_RULES :: "(string \<times> disease_info) list" where
  "DISEASE_RULES =
   [(''diabetes_type_2'', mk_rule ''Type 2 Diabetes''
       [cond ''glucose'' ''>='' (Num 126),
        cond ''hba1c'' ''>='' (Num 6.5)]
       ''OR'' ''High Risk''
       ''Elevated glucose and/or HbA1c levels indicate diabetes.''
       [''Increased thirst'', ''Frequent urination'', ''Fatigue'', ''Blurred vision'',
        ''Slow wound healing'', ''Unexplained weight loss'']),
    (''prediabetes'', mk_rule ''Prediabetes''
       [cond ''glucose'' ''between'' (Bounds [100, 125]),
        cond ''hba1c'' ''between'' (Bounds [5.7, 6.4])]
       ''OR'' ''Medium Risk''
       ''Blood sugar levels are higher than normal but not yet diabetic.''
       [''Mild fatigue'', ''Occasional increased thirst'', ''Slight weight changes'',
        ''Increased appetite'']),
    (''high_glucose'', mk_rule ''Elevated Blood Glucose''
       [cond ''glucose'' ''between'' (Bounds [110, 125])]
       ''AND'' ''Medium Risk''
       ''Glucose levels are above normal range, indicating potential metabolic issues.''
       [''Mild fatigue'', ''Increased thirst'', ''Frequent urination'',
        ''Sugar cravings'']),
    (''cardiovascular_risk'', mk_rule ''Cardiovascular Disease Risk''
       [cond ''total_cholesterol'' ''>='' (Num 240),
        cond ''ldl'' ''>='' (Num 160),
        cond ''hdl'' ''<='' (Num 35)]
       ''OR'' ''High Risk''
       ''Abnormal cholesterol levels significantly increase heart disease risk.''
       [''Chest pain'', ''Shortness of breath'', ''Fatigue'',
        ''Leg pain when walking'', ''Dizziness'']),
    (''moderate_cardiovascular_risk'', mk_rule ''Moderate Cardiovascular Risk''
       [cond ''total_cholesterol'' ''between'' (Bounds [200, 239]),
        cond ''ldl'' ''between'' (Bounds [130, 159]),
        cond ''hdl'' ''between'' (Bounds [35, 45])]
       ''OR'' ''Medium Risk''
       ''Borderline cholesterol levels warrant monitoring and lifestyle changes.''
       [''Mild chest discomfort'', ''Occasional fatigue'', ''Exercise intolerance'',
        ''Mild shortness of breath'']),
    (''high_cholesterol'', mk_rule ''High Cholesterol''
       [cond ''total_cholesterol'' ''>='' (Num 200)]
       ''AND'' ''Medium Risk''
       ''Total cholesterol above recommended levels increases cardiovascular risk.''
       [''No obvious symptoms'', ''Potential fatigue'',
        ''Chest tightness during exercise'']),
    (''iron_deficiency_anemia'', mk_rule ''Iron Deficiency Anemia''
       [cond ''hemoglobin'' ''<'' (Num 12),
        cond ''hematocrit'' ''<'' (Num 36)]
       ''OR'' ''Medium Risk''
       ''Low hemoglobin and hematocrit levels suggest iron deficiency anemia.''
       [''Fatigue'', ''Weakness'', ''Pale skin'', ''Cold hands and feet'',
        ''Restless legs'', ''Brittle nails'']),
    (''mild_anemia'', mk_rule ''Mild Anemia''
       [cond ''hemoglobin'' ''between'' (Bounds [12, 13.5]),
        cond ''hematocrit'' ''between'' (Bounds [36, 40])]
       ''OR'' ''Low Risk''
       ''Hemoglobin levels are on the lower end of normal range.''
       [''Mild fatigue'', ''Occasional weakness'', ''Slight pale appearance'']),
    (''hypothyroidism'', mk_rule ''Hypothyroidism''
       [cond ''tsh'' ''>'' (Num 4.0)]
       ''AND'' ''Medium Risk''
       ''Elevated TSH levels indicate an underactive thyroid gland.''
       [''Fatigue'', ''Weight gain'', ''Cold sensitivity'', ''Dry skin'',
        ''Hair loss'', ''Depression'', ''Constipation'']),
    (''borderline_hypothyroidism'', mk_rule ''Borderline Hypothyroidism''
       [cond ''tsh'' ''between'' (Bounds [3.0, 4.0])]
       ''AND'' ''Low Risk''
       ''TSH levels are in the upper normal range, may indicate early thyroid dysfunction.''
       [''Mild fatigue'', ''Slight weight gain'', ''Mild cold sensitivity'']),
    (''hyperthyroidism'', mk_rule ''Hyperthyroidism''
       [cond ''tsh'' ''<'' (Num 0.4)]
       ''AND'' ''Medium Risk''
       ''Low TSH levels indicate an overactive thyroid gland.''
       [''Weight loss'', ''Rapid heartbeat'', ''Nervousness'', ''Sweating'',
        ''Heat sensitivity'', ''Irritability'']),
    (''metabolic_syndrome_risk'', mk_rule ''Metabolic Syndrome Risk''
       [cond ''glucose'' ''>='' (Num 100),
        cond ''hdl'' ''<='' (Num 50),
        cond ''total_cholesterol'' ''>='' (Num 200)]
       ''AND'' ''High Risk''
       ''Combination of elevated glucose, low HDL, and high cholesterol suggests metabolic syndrome.''
       [''Abdominal weight gain'', ''Fatigue'', ''Increased thirst'',
        ''High blood pressure symptoms'']),
    (''vitamin_d_deficiency'', mk_rule ''Vitamin D Deficiency''
       [cond ''vitamin_d'' ''<'' (Num 20)]
       ''AND'' ''Medium Risk''
       ''Severely low vitamin D levels increase risk of bone diseases and immune dysfunction.''
       [''Bone pain'', ''Muscle weakness'', ''Frequent infections'', ''Fatigue'',
        ''Depression'', ''Hair loss'']),
    (''vitamin_d_insufficiency'', mk_rule ''Vitamin D Insufficiency''
       [cond ''vitamin_d'' ''between'' (Bounds [20, 29])]
       ''AND'' ''Low Risk''
       ''Suboptimal vitamin D levels may compromise bone health and immune function.''
       [''Mild fatigue'', ''Occasional muscle aches'', ''Susceptibility to colds'']),
    (''vitamin_b12_deficiency'', mk_rule ''Vitamin B12 Deficiency''
       [cond ''vitamin_b12'' ''<'' (Num 200)]
       ''AND'' ''High Risk''
       ''B12 deficiency can cause serious neurological damage and pernicious anemia.''
       [''Extreme fatigue'', ''Memory problems'', ''Confusion'',
        ''Tingling in hands/feet'', ''Balance issues'', ''Pale skin'']),
    (''low_vitamin_c'', mk_rule ''Vitamin C Deficiency''
       [cond ''vitamin_c'' ''<'' (Num 0.6)]
       ''AND'' ''Medium Risk''
       ''Low vitamin C increases risk of scurvy and compromises immune function.''
       [''Easy bruising'', ''Slow wound healing'', ''Joint pain'', ''Tooth loss'',
        ''Bleeding gums'']),
    (''hypertension_stage_1'', mk_rule ''Stage 1 Hypertension''
       [cond ''systolic_bp'' ''between'' (Bounds [130, 139]),
        cond ''diastolic_bp'' ''between'' (Bounds [80, 89])]
       ''OR'' ''Medium Risk''
       ''Blood pressure is elevated and requires lifestyle modifications.''
       [''Headaches'', ''Dizziness'', ''Shortness of breath'', ''Nosebleeds'',
        ''Flushing'']),
    (''hypertension_stage_2'', mk_rule ''Stage 2 Hypertension''
       [cond ''systolic_bp'' ''>='' (Num 140),
        cond ''diastolic_bp'' ''>='' (Num 90)]
       ''OR'' ''High Risk''
       ''Significantly elevated blood pressure requires immediate medical attention.''
       [''Severe headaches'', ''Chest pain'', ''Vision problems'',
        ''Difficulty breathing'', ''Irregular heartbeat'']),
    (''hypotension'', mk_rule ''Low Blood Pressure (Hypotension)''
       [cond ''systolic_bp'' ''<'' (Num 90),
        cond ''diastolic_bp'' ''<'' (Num 60)]
       ''OR'' ''Medium Risk''
       ''Low blood pressure may cause inadequate blood flow to organs.''
       [''Dizziness'', ''Fainting'', ''Fatigue'', ''Nausea'', ''Cold/clammy skin'',
        ''Blurred vision'']),
    (''tachycardia'', mk_rule ''Tachycardia (Rapid Heart Rate)''
       [cond ''heart_rate'' ''>'' (Num 100)]
       ''AND'' ''Medium Risk''
       ''Elevated resting heart rate may indicate cardiovascular stress or other conditions.''
       [''Palpitations'', ''Shortness of breath'', ''Dizziness'', ''Chest pain'',
        ''Fatigue'']),
    (''bradycardia'', mk_rule ''Bradycardia (Slow Heart Rate)''
       [cond ''heart_rate'' ''<'' (Num 60)]
       ''AND'' ''Low Risk''
       ''Low heart rate may be normal for athletes or indicate cardiac conduction issues.''
       [''Fatigue'', ''Dizziness'', ''Weakness'', ''Confusion'', ''Fainting spells'']),
    (''kidney_dysfunction'', mk_rule ''Kidney Dysfunction''
       [cond ''creatinine'' ''>'' (Num 1.3)]
       ''AND'' ''High Risk''
       ''Elevated creatinine indicates reduced kidney function.''
       [''Decreased urination'', ''Swelling in legs/ankles'', ''Fatigue'', ''Nausea'',
        ''Confusion''])]"

type_synonym biomarkers = "(string \<times> rat) list"

text \<open>
  A comparison of a number with a list raises \<open>TypeError\<close> (\<open>==\<close> does not: it is false);
  subscripting a number raises \<open>TypeError\<close>, a list that is too short \<open>IndexError\<close>. The
  chained comparison of \<open>between\<close> reads \<open>threshold[1]\<close> only when the first half holds.
\<close>

definition evaluate_disease_condition :: "condition \<Rightarrow> biomarkers \<Rightarrow> py_error + bool" where
  "evaluate_disease_condition condition bm =
     (case map_of bm (biomarker condition) of
        None \<Rightarrow> Inr False
      | Some v \<Rightarrow>
          (let op = operator condition; t = cond_value condition in
           if op = ''>='' then (case t of Num x \<Rightarrow> Inr (v \<ge> x) | Bounds bs \<Rightarrow> Inl TypeError)
           else if op = ''<='' then (case t of Num x \<Rightarrow> Inr (v \<le> x) | Bounds bs \<Rightarrow> Inl TypeError)
           else if op = ''>'' then (case t of Num x \<Rightarrow> Inr (v > x) | Bounds bs \<Rightarrow> Inl TypeError)
           else if op = ''<'' then (case t of Num x \<Rightarrow> Inr (v < x) | Bounds bs \<Rightarrow> Inl TypeError)
           else if op = ''=='' \<or> op = ''='' then
             (case t of Num x \<Rightarrow> Inr (v = x) | Bounds bs \<Rightarrow> Inr False)
           else if op = ''between'' then
             (case t of
                Num x \<Rightarrow> Inl TypeError
              | Bounds [] \<Rightarrow> Inl IndexError
              | Bounds (lo # rest) \<Rightarrow>
                  (if lo \<le> v then (case rest of [] \<Rightarrow> Inl IndexError | hi # _ \<Rightarrow> Inr (v \<le> hi))
                   else Inr False))
           else Inr False))"

text \<open>The list comprehension evaluates every condition before \<open>all\<close>/\<open>any\<close> is applied.\<close>

fun condition_results :: "condition list \<Rightarrow> biomarkers \<Rightarrow> py_error + bool list" where
  "condition_results [] bm = Inr []"
| "condition_results (c # cs) bm =
     (case evaluate_disease_condition c bm of
        Inl e \<Rightarrow> Inl e
      | Inr r \<Rightarrow> (case condition_results cs bm of Inl e \<Rightarrow> Inl e | Inr rs \<Rightarrow> Inr (r # rs)))"

definition disease_detected :: "disease_info \<Rightarrow> biomarkers \<Rightarrow> py_error + bool" where
  "disease_detected info bm =
     (case condition_results (conditions info) bm of
        Inl e \<Rightarrow> Inl e
      | Inr rs \<Rightarrow>
          Inr (if logic info = ''AND'' then list_all (\<lambda>r. r) rs
               else if logic info = ''OR'' then list_ex (\<lambda>r. r) rs
               else False))"

record detected =
  d_name :: string
  d_priority :: string
  d_reasoning :: string

definition detected_of :: "disease_info \<Rightarrow> detected" where
  "detected_of info = \<lparr>d_name = name info, d_priority = priority info, d_reasoning = reasoning info\<rparr>"

text \<open>The loop over the rule registry, in registry order.\<close>

fun detect_loop :: "(string \<times> disease_info) list \<Rightarrow> biomarkers \<Rightarrow> py_error + detected list" where
  "detect_loop [] bm = Inr []"
| "detect_loop ((disease_key, info) # rest) bm =
     (case disease_detected info bm of
        Inl e \<Rightarrow> Inl e
      | Inr fired \<Rightarrow>
          (case detect_loop rest bm of
             Inl e \<Rightarrow> Inl e
           | Inr ds \<Rightarrow> Inr (if fired then detected_of info # ds else ds)))"

fun all_optimal :: "biomarkers \<Rightarrow> bool" where
  "all_optimal [] = True"
| "all_optimal ((biomarker_key, v) # rest) =
     (case map_of BIOMARKER_RULES biomarker_key of
        None \<Rightarrow> all_optimal rest
      | Some rules \<Rightarrow>
          (let (optimal_min, optimal_max) =
                 calculate_optimal_range (acceptable_min rules) (acceptable_max rules)
           in if \<not> (optimal_min \<le> v \<and> v \<le> optimal_max) then False else all_optimal rest))"

definition everything_fine :: detected where
  "everything_fine =
     \<lparr>d_name = ''Everything Fine'', d_priority = ''Excellent Health'',
      d_reasoning = ''All biomarkers are within optimal ranges. No potential health conditions detected.''\<rparr>"

definition health_monitoring :: detected where
  "health_monitoring =
     \<lparr>d_name = ''Health Monitoring Recommended'', d_priority = ''Monitor'',
      d_reasoning = ''Some biomarkers are outside optimal ranges but no specific diseases detected. Continue monitoring and consider lifestyle improvements.''\<rparr>"

definition priority_order :: "string \<Rightarrow> nat" where
  "priority_order p =
     (if p = ''High Risk'' then 0 else if p = ''Medium Risk'' then 1
      else if p = ''Low Risk'' then 2 else if p = ''Monitor'' then 3
      else if p = ''Excellent Health'' then 4 else 5)"

definition detect_diseases :: "biomarkers \<Rightarrow> py_error + detected list" where
  "detect_diseases bm =
     (case detect_loop DISEASE_RULES bm of
        Inl e \<Rightarrow> Inl e
      | Inr ds \<Rightarrow>
          (let detected_diseases =
                 (if ds = [] then (if all_optimal bm then [everything_fine] else [health_monitoring])
                  else ds)
           in Inr (sort_key (\<lambda>d. priority_order (d_priority d)) detected_diseases)))"

subsection \<open>Biomarker Matcher and Structured Source Adapter: \<open>standardize_biomarkers\<close>, \<open>parse_csv_file\<close>\<close>

text \<open>A candidate is \<open>(context, value, unit)\<close>, as \<open>extract_numbers_from_text\<close> returns it.\<close>

type_synonym candidate = "string \<times> rat \<times> string"

definition context_variations :: "string \<Rightarrow> string list" where
  "context_variations context =
     [context,
      replace CHR ''_'' '' '' context,
      replace CHR '' '' [] context,
      replace CHR ''-'' '' '' context,
      replace CHR ''/'' '' '' context]"

definition fuzzy_match :: "string \<Rightarrow> string \<Rightarrow> bool" where
  "fuzzy_match keyword variation =
     (str_in (lower keyword) (lower variation) \<or>
      str_in (lower variation) (lower keyword) \<or>
      str_in (replace CHR ''o'' ''0'' (lower keyword)) (lower variation) \<or>
      str_in (replace CHR ''l'' ''1'' (lower keyword)) (lower variation))"

text \<open>
  The three nested loops with their \<open>break\<close>s. \<open>scan_variations\<close> and \<open>scan_keywords\<close>
  return the flag \<open>matched\<close>; \<open>scan_candidates\<close> returns the value that is stored, if any.
  The counter \<open>matched_count\<close> is never read and is left out.
\<close>

fun scan_variations :: "string \<Rightarrow> string list \<Rightarrow> bool" where
  "scan_variations keyword [] = False"
| "scan_variations keyword (variation # vs) =
     (if fuzzy_match keyword variation then True else scan_variations keyword vs)"

fun scan_keywords :: "string list \<Rightarrow> string list \<Rightarrow> bool" where
  "scan_keywords [] variations = False"
| "scan_keywords (keyword # ks) variations =
     (if scan_variations keyword variations then True else scan_keywords ks variations)"

fun scan_candidates :: "string list \<Rightarrow> candidate list \<Rightarrow> rat option" where
  "scan_candidates kws [] = None"
| "scan_candidates kws ((context, v, u) # rest) =
     (if scan_keywords kws (context_variations context) then Some v
      else scan_candidates kws rest)"

fun match_loop :: "(string \<times> biomarker_info) list \<Rightarrow> candidate list \<Rightarrow> biomarkers \<Rightarrow> biomarkers" where
  "match_loop [] extracted_numbers bm = bm"
| "match_loop ((biomarker_key, info) # rest) extracted_numbers bm =
     match_loop rest extracted_numbers
       (case scan_candidates (rule_keywords info) extracted_numbers of
          None \<Rightarrow> bm
        | Some v \<Rightarrow> AList.update biomarker_key v bm)"

definition name_mapping :: "(string \<times> string) list" where
  "name_mapping =
   [(''glucose'', ''glucose''),
    (''total_cholesterol'', ''total_cholesterol''),
    (''ldl_cholesterol'', ''ldl''),
    (''hdl_cholesterol'', ''hdl''),
    (''hemoglobin'', ''hemoglobin''),
    (''hematocrit'', ''hematocrit''),
    (''tsh'', ''tsh''),
    (''hba1c'', ''hba1c''),
    (''vitamin_d'', ''vitamin_d''),
    (''vitamin_b12'', ''vitamin_b12''),
    (''vitamin_c'', ''vitamin_c''),
    (''vitamin_a'', ''vitamin_a''),
    (''systolic_bp'', ''systolic_bp''),
    (''diastolic_bp'', ''diastolic_bp''),
    (''heart_rate'', ''heart_rate''),
    (''creatinine'', ''creatinine'')]"

definition clean_name :: "string \<Rightarrow> string" where
  "clean_name csv_name = replace CHR ''-'' ''_'' (replace CHR '' '' ''_'' (lower csv_name))"

datatype data_source = Text string | Table biomarkers

text \<open>The last block of \<open>standardize_biomarkers\<close>, guarded by \<open>file_type == 'csv'\<close>.\<close>

definition direct_name_matching :: "data_source \<Rightarrow> string \<Rightarrow> biomarkers \<Rightarrow> biomarkers" where
  "direct_name_matching data_source file_type bm =
     (case data_source of
        Table d \<Rightarrow>
          (if file_type = ''csv'' then
             fold (\<lambda>(csv_name, v) acc.
                     (case map_of name_mapping (clean_name csv_name) of
                        None \<Rightarrow> acc
                      | Some k \<Rightarrow> AList.update k v acc)) d bm
           else bm)
      | Text t \<Rightarrow> bm)"

text \<open>
  \<open>extract_numbers_from_text\<close> is built on the regular expressions of Python's \<open>re\<close>; it
  is a parameter here.
\<close>

definition standardize_biomarkers ::
  "(string \<Rightarrow> candidate list) \<Rightarrow> data_source \<Rightarrow> string \<Rightarrow> biomarkers" where
  "standardize_biomarkers extract_numbers_from_text data_source file_type =
     (if file_type = ''csv'' then
        (case data_source of Table d \<Rightarrow> d | Text t \<Rightarrow> [])
      else
        (case data_source of
           Table d \<Rightarrow> []
         | Text t \<Rightarrow>
             (let extracted_numbers = extract_numbers_from_text t;
                  bm = match_loop BIOMARKER_RULES extracted_numbers []
              in direct_name_matching data_source file_type bm)))"

text \<open>
  The row loop of \<open>parse_csv_file\<close>, on the rows after the header: the name cell and the
  value cell, the latter as \<open>float\<close> read it (\<open>None\<close> where \<open>float\<close> raises \<open>ValueError\<close>
  and the row is skipped). Opening the file and finding the two columns are not modelled.
\<close>

fun parse_csv_rows :: "(string \<times> rat option) list \<Rightarrow> biomarkers \<Rightarrow> biomarkers" where
  "parse_csv_rows [] bm = bm"
| "parse_csv_rows ((name_cell, value_cell) # rows) bm =
     (case value_cell of
        None \<Rightarrow> parse_csv_rows rows bm
      | Some v \<Rightarrow>
          (let biomarker_name = lower (strip name_cell);
               biomarker_name = replace CHR ''-'' ''_'' (replace CHR '' '' ''_'' biomarker_name)
           in parse_csv_rows rows (AList.update biomarker_name v bm)))"

definition parse_csv_file :: "(string \<times> rat option) list \<Rightarrow> biomarkers" where
  "parse_csv_file rows = parse_csv_rows rows []"

subsection \<open>Symptom Aggregator: \<open>get_symptoms\<close>\<close>

definition general_symptoms :: "(string \<times> (string \<times> string list) list) list" where
  "general_symptoms =
   [(''glucose'',
       [(''high'', [''Increased thirst'', ''Frequent urination'', ''Fatigue'', ''Blurred vision'']),
        (''borderline'', [''Mild fatigue'', ''Occasional thirst'', ''Sugar cravings''])]),
    (''total_cholesterol'',
       [(''high'', [''No obvious symptoms initially'', ''Potential chest discomfort'',
          ''Exercise fatigue'']),
        (''borderline'', [''Mild exercise intolerance'', ''Occasional fatigue''])]),
    (''ldl'',
       [(''high'', [''Chest tightness during exercise'', ''Shortness of breath'', ''Fatigue'']),
        (''borderline'', [''Mild chest discomfort during activity''])]),
    (''hdl'',
       [(''low'', [''Increased cardiovascular risk symptoms'', ''Exercise intolerance'']),
        (''borderline'', [''Mild fatigue during physical activity''])]),
    (''hemoglobin'',
       [(''low'', [''Fatigue'', ''Weakness'', ''Pale skin'', ''Cold hands and feet'',
          ''Shortness of breath'']),
        (''borderline'', [''Mild fatigue'', ''Occasional weakness'', ''Slight paleness''])]),
    (''hematocrit'',
       [(''low'', [''Fatigue'', ''Weakness'', ''Dizziness'', ''Cold sensitivity'']),
        (''borderline'', [''Mild fatigue'', ''Occasional dizziness''])]),
    (''tsh'',
       [(''high'', [''Fatigue'', ''Weight gain'', ''Cold sensitivity'', ''Dry skin'', ''Hair thinning'']),
        (''low'', [''Weight loss'', ''Rapid heartbeat'', ''Nervousness'', ''Sweating'',
          ''Heat sensitivity'']),
        (''borderline_high'', [''Mild fatigue'', ''Slight weight gain'', ''Mild cold sensitivity'']),
        (''borderline_low'', [''Mild nervousness'', ''Slight weight loss'', ''Mild heat sensitivity''])]),
    (''hba1c'',
       [(''high'', [''Fatigue'', ''Increased thirst'', ''Frequent urination'', ''Slow healing'']),
        (''borderline'', [''Mild fatigue'', ''Occasional increased appetite''])]),
    (''vitamin_d'',
       [(''low'', [''Bone pain'', ''Muscle weakness'', ''Frequent infections'', ''Depression'']),
        (''borderline'', [''Mild fatigue'', ''Occasional muscle aches''])]),
    (''vitamin_b12'',
       [(''low'', [''Extreme fatigue'', ''Memory problems'', ''Tingling in hands/feet'',
          ''Balance issues'']),
        (''borderline'', [''Mild fatigue'', ''Occasional memory lapses''])]),
    (''vitamin_c'',
       [(''low'', [''Easy bruising'', ''Slow wound healing'', ''Bleeding gums'', ''Joint pain'']),
        (''borderline'', [''Mild bruising'', ''Slower healing''])]),
    (''systolic_bp'',
       [(''high'', [''Headaches'', ''Dizziness'', ''Shortness of breath'', ''Chest pain'']),
        (''low'', [''Dizziness'', ''Fainting'', ''Fatigue'']),
        (''borderline'', [''Mild headaches'', ''Occasional dizziness''])]),
    (''diastolic_bp'',
       [(''high'', [''Headaches'', ''Dizziness'', ''Blurred vision'']),
        (''low'', [''Light-headedness'', ''Weakness'']),
        (''borderline'', [''Mild dizziness''])]),
    (''heart_rate'',
       [(''high'', [''Palpitations'', ''Shortness of breath'', ''Chest discomfort'', ''Dizziness'']),
        (''low'', [''Fatigue'', ''Dizziness'', ''Weakness'']),
        (''borderline'', [''Mild palpitations'', ''Occasional fatigue''])]),
    (''creatinine'',
       [(''high'', [''Decreased urination'', ''Swelling in legs/ankles'', ''Fatigue'', ''Nausea'']),
        (''borderline'', [''Mild fatigue'', ''Occasional swelling''])])]"

text \<open>\<open>symptoms.update(items)\<close> on a set kept as a duplicate-free list.\<close>

definition set_update :: "string list \<Rightarrow> string list \<Rightarrow> string list" where
  "set_update s items = fold (\<lambda>x acc. if x \<in> set acc then acc else acc @ [x]) items s"

definition rule_symptoms :: "string \<Rightarrow> string list" where
  "rule_symptoms disease_name =
     (case find (\<lambda>(disease_key, info). lower (name info) = disease_name) DISEASE_RULES of
        None \<Rightarrow> []
      | Some (disease_key, info) \<Rightarrow> symptoms info)"

text \<open>Both loops carry the set \<open>symptoms\<close> and their own flag.\<close>

fun disease_loop :: "detected list \<Rightarrow> string list \<times> bool \<Rightarrow> string list \<times> bool" where
  "disease_loop [] acc = acc"
| "disease_loop (disease # rest) (syms, disease_symptoms_added) =
     (let disease_name = lower (d_name disease) in
      if disease_name \<in> set [''everything fine'', ''health monitoring recommended'']
      then disease_loop rest (syms, disease_symptoms_added)
      else disease_loop rest (set_update syms (rule_symptoms disease_name), True))"

definition severity :: "string \<Rightarrow> string \<Rightarrow> string list" where
  "severity biomarker_key kind =
     (case map_of general_symptoms biomarker_key of
        None \<Rightarrow> []
      | Some table \<Rightarrow> (case map_of table kind of None \<Rightarrow> [] | Some xs \<Rightarrow> xs))"

fun biomarker_loop :: "biomarkers \<Rightarrow> string list \<times> bool \<Rightarrow> string list \<times> bool" where
  "biomarker_loop [] acc = acc"
| "biomarker_loop ((biomarker_key, v) # rest) (syms, biomarker_symptoms_added) =
     (case map_of BIOMARKER_RULES biomarker_key of
        None \<Rightarrow> biomarker_loop rest (syms, biomarker_symptoms_added)
      | Some rules \<Rightarrow>
          (if map_of general_symptoms biomarker_key = None
           then biomarker_loop rest (syms, biomarker_symptoms_added)
           else if v \<ge> high_threshold rules
           then biomarker_loop rest (set_update syms (severity biomarker_key ''high''), True)
           else if v > acceptable_max rules
           then biomarker_loop rest (set_update syms (severity biomarker_key ''borderline''), True)
           else if v < acceptable_min rules
           then (if biomarker_key = ''tsh''
                 then biomarker_loop rest (set_update syms (severity biomarker_key ''low''), True)
                 else biomarker_loop rest (set_update syms (severity biomarker_key ''low''), True))
           else if biomarker_key = ''tsh'' \<and> v > 3.0
           then biomarker_loop rest
                  (set_update syms (severity biomarker_key ''borderline_high''), True)
           else if biomarker_key = ''hdl'' \<and> v < 50
           then biomarker_loop rest (set_update syms (severity biomarker_key ''borderline''), True)
           else biomarker_loop rest (syms, biomarker_symptoms_added)))"

definition positive_health :: "string list" where
  "positive_health =
     [''All biomarkers within optimal ranges - no symptoms to monitor'',
      ''Excellent overall health indicators'',
      ''Continue current healthy lifestyle practices'',
      ''Maintain regular health check-ups'',
      ''Stay active and eat a balanced diet'']"

definition monitor_fallback :: "string list" where
  "monitor_fallback =
     [''Monitor general health indicators regularly'',
      ''Maintain healthy lifestyle practices'',
      ''Follow up with healthcare provider as needed'',
      ''Stay hydrated and get adequate sleep'',
      ''Continue regular exercise routine'']"

definition health_guidance :: "string list" where
  "health_guidance =
     [''Regular health monitoring recommended'',
      ''Maintain balanced nutrition and exercise'',
      ''Consult healthcare provider for personalized advice'']"

definition get_symptoms :: "detected list \<Rightarrow> biomarkers \<Rightarrow> string list" where
  "get_symptoms detected_diseases bm =
     (let (s1, disease_symptoms_added) = disease_loop detected_diseases ([], False);
          (s2, biomarker_symptoms_added) = biomarker_loop bm (s1, False);
          s3 = (if s2 = [] \<and> \<not> disease_symptoms_added \<and> \<not> biomarker_symptoms_added
                then set_update s2 positive_health
                else if s2 = [] then set_update s2 monitor_fallback
                else s2);
          symptoms_list = take 15 s3;
          symptoms_list = (if length symptoms_list < 3 then symptoms_list @ health_guidance
                           else symptoms_list)
      in take 15 symptoms_list)"

subsection \<open>Recommendation Generator: \<open>generate_recommendations\<close>\<close>

text \<open>
  Every template has the same three categories, which are also the three keys of the
  result: a record of three buckets, each a set kept as a duplicate-free list.
\<close>

record recommendation =
  professional_consultation :: "string list"
  dietary :: "string list"
  lifestyle :: "string list"

definition mk_template :: "string list \<Rightarrow> string list \<Rightarrow> string list \<Rightarrow> recommendation" where
  "mk_template p d l = \<lparr>professional_consultation = p, dietary = d, lifestyle = l\<rparr>"

definition general_wellness :: recommendation where
  "general_wellness =
     mk_template
       [''Annual physical examination'', ''Regular preventive screenings'',
        ''Discuss any concerns with your healthcare provider'']
       [''Maintain a balanced, nutritious diet'', ''Stay hydrated'',
        ''Limit processed foods'']
       [''Regular physical activity'', ''Adequate sleep (7-9 hours)'',
        ''Stress management'', ''Avoid tobacco and limit alcohol'']"

definition RECOMMENDATION_TEMPLATES :: "(string \<times> recommendation) list" where
  "RECOMMENDATION_TEMPLATES =
   [(''diabetes_type_2'', mk_template
       [''Schedule an appointment with an endocrinologist'',
        ''Regular monitoring with your primary care physician'',
        ''Consider diabetes education classes'']
       [''Follow a low-carbohydrate diet'', ''Monitor portion sizes and meal timing'',
        ''Increase fiber intake'', ''Limit sugar and processed foods'']
       [''Engage in regular physical activity (150 minutes/week)'',
        ''Monitor blood glucose regularly'', ''Maintain a healthy weight'',
        ''Manage stress levels'']),
    (''cardiovascular_risk'', mk_template
       [''Consult with a cardiologist'', ''Discuss statin therapy with your doctor'',
        ''Regular blood pressure monitoring'']
       [''Adopt a Mediterranean or DASH diet'', ''Reduce saturated and trans fats'',
        ''Increase omega-3 fatty acids'', ''Limit sodium intake'']
       [''Regular aerobic exercise'', ''Quit smoking if applicable'',
        ''Maintain a healthy weight'', ''Limit alcohol consumption'']),
    (''iron_deficiency_anemia'', mk_template
       [''See a hematologist for further evaluation'',
        ''Investigate underlying causes of iron deficiency'',
        ''Regular follow-up blood tests'']
       [''Increase iron-rich foods (lean meats, spinach, beans)'',
        ''Combine iron foods with vitamin C sources'',
        ''Consider iron supplements as prescribed'',
        ''Avoid coffee and tea with iron-rich meals'']
       [''Adequate rest and sleep'', ''Gradual increase in physical activity'',
        ''Monitor symptoms closely'']),
    (''thyroid_disorders'', mk_template
       [''Consult with an endocrinologist'', ''Regular thyroid function monitoring'',
        ''Discuss medication options'']
       [''Ensure adequate iodine intake'', ''Consider selenium-rich foods'',
        ''Maintain a balanced diet'']
       [''Manage stress levels'', ''Regular sleep schedule'', ''Monitor symptoms'']),
    (''general_wellness'', general_wellness)]"

definition template_key :: "string \<Rightarrow> string option" where
  "template_key disease_name =
     (if str_in ''diabetes'' disease_name then Some ''diabetes_type_2''
      else if str_in ''cardiovascular'' disease_name then Some ''cardiovascular_risk''
      else if str_in ''anemia'' disease_name then Some ''iron_deficiency_anemia''
      else if str_in ''thyroid'' disease_name then Some ''thyroid_disorders''
      else None)"

definition add_items ::
  "(string list \<Rightarrow> string list) \<Rightarrow> recommendation \<Rightarrow> recommendation \<Rightarrow> recommendation" where
  "add_items pick template recs =
     \<lparr>professional_consultation =
        set_update (professional_consultation recs) (pick (professional_consultation template)),
      dietary = set_update (dietary recs) (pick (dietary template)),
      lifestyle = set_update (lifestyle recs) (pick (lifestyle template))\<rparr>"

fun recommendation_loop :: "detected list \<Rightarrow> recommendation \<Rightarrow> recommendation" where
  "recommendation_loop [] recs = recs"
| "recommendation_loop (disease # rest) recs =
     (let disease_name = lower (d_name disease) in
      case template_key disease_name of
        None \<Rightarrow> recommendation_loop rest recs
      | Some k \<Rightarrow>
          (case map_of RECOMMENDATION_TEMPLATES k of
             None \<Rightarrow> recommendation_loop rest recs
           | Some template \<Rightarrow> recommendation_loop rest (add_items (\<lambda>items. items) template recs)))"

definition generate_recommendations :: "detected list \<Rightarrow> biomarkers \<Rightarrow> recommendation" where
  "generate_recommendations detected_diseases bm =
     (let recs = recommendation_loop detected_diseases (mk_template [] [] [])
      in if detected_diseases = [] then add_items (take 2) general_wellness recs else recs)"

subsection \<open>Multi-Source Merger and the report: \<open>analyze_report\<close>\<close>

text \<open>An entry of \<open>all_biomarkers\<close> is one value, or the list of the values seen so far.\<close>

datatype reading = Single rat | Many "rat list"

definition merge_value :: "string \<Rightarrow> rat \<Rightarrow> (string \<times> reading) list \<Rightarrow> (string \<times> reading) list" where
  "merge_value b v all_biomarkers =
     (case map_of all_biomarkers b of
        Some (Many vs) \<Rightarrow> AList.update b (Many (vs @ [v])) all_biomarkers
      | Some (Single x) \<Rightarrow> AList.update b (Many [x, v]) all_biomarkers
      | None \<Rightarrow> AList.update b (Single v) all_biomarkers)"

definition merge_file :: "biomarkers \<Rightarrow> (string \<times> reading) list \<Rightarrow> (string \<times> reading) list" where
  "merge_file bm all_biomarkers = fold (\<lambda>(b, v) acc. merge_value b v acc) bm all_biomarkers"

definition merge_files :: "biomarkers list \<Rightarrow> (string \<times> reading) list" where
  "merge_files files = fold merge_file files []"

definition sample_data :: "(string \<times> reading) list" where
  "sample_data =
   [(''glucose'', Single 115.0),
    (''total_cholesterol'', Single 220.0),
    (''hdl'', Single 38.0),
    (''ldl'', Single 145.0),
    (''hemoglobin'', Single 11.8),
    (''hematocrit'', Single 35.0),
    (''tsh'', Single 3.2),
    (''hba1c'', Single 5.9),
    (''vitamin_d'', Single 18.0),
    (''vitamin_b12'', Single 180.0),
    (''vitamin_c'', Single 0.4),
    (''vitamin_a'', Single 15.0),
    (''systolic_bp'', Single 135.0),
    (''diastolic_bp'', Single 85.0),
    (''heart_rate'', Single 105.0),
    (''creatinine'', Single 1.4)]"

text \<open>
  Rounding to the nearest double (IEEE 754 binary64, ties to even): 53 significant bits
  for a number of magnitude at least \<open>2^-1022\<close>, the fixed quantum \<open>2^-1074\<close> below
  that. \<open>bit_length n\<close> is the number of binary digits of a positive integer, and
  \<open>floor_log2 q\<close> the exponent \<open>e\<close> with \<open>2^e \<le> q < 2^(e+1)\<close> of a positive rational.
\<close>

function bit_length :: "int \<Rightarrow> nat" where
  "bit_length n = (if n \<le> 0 then 0 else Suc (bit_length (n div 2)))"
  by pat_completeness auto
termination
  by (relation "measure nat") auto

definition pow2 :: "int \<Rightarrow> rat" where
  "pow2 e = (if 0 \<le> e then 2 ^ nat e else 1 / 2 ^ nat (- e))"

definition floor_log2 :: "rat \<Rightarrow> int" where
  "floor_log2 q =
     (let (a, b) = quotient_of q;
          d = int (bit_length a) - int (bit_length b)
      in if pow2 d \<le> q then d else d - 1)"

definition round_half_even :: "rat \<Rightarrow> int" where
  "round_half_even x =
     (let n = \<lfloor>x\<rfloor>; r = x - of_int n
      in if r < 1 / 2 then n else if r > 1 / 2 then n + 1 else if even n then n else n + 1)"

definition round_double :: "rat \<Rightarrow> rat" where
  "round_double q =
     (if q = 0 then 0
      else (let e = max (floor_log2 \<bar>q\<bar>) (- 1022);
                quantum = pow2 (e - 52)
            in of_int (round_half_even (q / quantum)) * quantum))"

text \<open>
  \<open>sum(values)\<close> starts from 0 and adds the items from left to right, each addition
  rounded; \<open>sum(values) / len(values)\<close> is one more rounded operation. (From version 3.12
  on CPython adds floats with a compensated sum, which gives the same result for one or
  two items and whenever no addition rounds.)
\<close>

fun py_sum :: "rat \<Rightarrow> rat list \<Rightarrow> rat" where
  "py_sum acc [] = acc"
| "py_sum acc (v # vs) = py_sum (round_double (acc + v)) vs"

definition average :: "reading \<Rightarrow> rat" where
  "average r =
     (case r of
        Many vs \<Rightarrow> round_double (py_sum 0 vs / of_nat (length vs))
      | Single v \<Rightarrow> v)"

definition final_biomarkers :: "(string \<times> reading) list \<Rightarrow> biomarkers" where
  "final_biomarkers all_biomarkers = map (\<lambda>(b, r). (b, average r)) all_biomarkers"

text \<open>
  The insight of an unregistered key prints the value; the rendering of the float is not
  modelled, so the text is kept as \<open>ValueDetected v\<close>.
\<close>

datatype unknown_insight = ValueDetected rat

record raw_reading =
  u_name :: string
  u_value :: rat
  u_insight :: unknown_insight

datatype classified = Analysed analysis | Unknown raw_reading

definition analyze_one :: "string \<Rightarrow> rat \<Rightarrow> classified" where
  "analyze_one biomarker_key v =
     (case analyze_biomarker biomarker_key v of
        Some a \<Rightarrow> Analysed a
      | None \<Rightarrow>
          Unknown \<lparr>u_name = display_name biomarker_key, u_value = v,
                   u_insight = ValueDetected v\<rparr>)"

definition category_of :: "classified \<Rightarrow> string" where
  "category_of c = (case c of Analysed a \<Rightarrow> status_category a | Unknown u \<Rightarrow> ''unknown'')"

record report =
  r_biomarkers :: "classified list"
  potential_diseases :: "detected list"
  r_symptoms :: "string list"
  recommendations :: recommendation
  files_processed :: nat
  collective_analysis :: bool

text \<open>
  The part of \<open>analyze_report\<close> after the upload checks: \<open>files\<close> holds, per uploaded
  file and in upload order, the map that \<open>standardize_biomarkers\<close> or \<open>parse_csv_file\<close>
  gave. \<open>collect_biomarkers\<close> is the merge loop followed by the replacement of an empty
  result by the sample data. \<open>analysis_timestamp\<close> and \<open>file_details\<close> are left out of the
  response. \<open>Inl\<close> is the exception that the handler turns into the status 500.
\<close>

definition collect_biomarkers :: "biomarkers list \<Rightarrow> (string \<times> reading) list" where
  "collect_biomarkers files =
     (let merged = merge_files files in if merged = [] then sample_data else merged)"

definition analyze_report :: "biomarkers list \<Rightarrow> py_error + report" where
  "analyze_report files =
     (let all_biomarkers = collect_biomarkers files;
          final = final_biomarkers all_biomarkers;
          analyzed_biomarkers = map (\<lambda>(biomarker_key, v). analyze_one biomarker_key v) final
      in case detect_diseases final of
           Inl e \<Rightarrow> Inl e
         | Inr detected_diseases \<Rightarrow>
             Inr \<lparr>r_biomarkers = analyzed_biomarkers,
                  potential_diseases = detected_diseases,
                  r_symptoms = get_symptoms detected_diseases final,
                  recommendations = generate_recommendations detected_diseases final,
                  files_processed = length files,
                  collective_analysis = (length files > 1)\<rparr>)"

subsection \<open>Notions used in the statements\<close>

text \<open>The closed enumeration of status categories of the data model.\<close>

definition status_categories :: "string list" where
  "status_categories =
     [''optimal'', ''below_optimal'', ''above_optimal'', ''below_acceptable'',
      ''above_acceptable'', ''significantly_high'', ''unknown'']"

text \<open>A condition passes on a map when its evaluation returns \<open>True\<close>.\<close>

definition passes :: "condition \<Rightarrow> biomarkers \<Rightarrow> bool" where
  "passes c bm = (evaluate_disease_condition c bm = Inr True)"

text \<open>The shape of a condition on which no comparison can raise.\<close>

definition well_typed :: "condition \<Rightarrow> bool" where
  "well_typed c =
     (if operator c \<in> set [''>='', ''<='', ''>'', ''<''] then
        (case cond_value c of Num x \<Rightarrow> True | Bounds bs \<Rightarrow> False)
      else if operator c = ''between'' then
        (case cond_value c of Num x \<Rightarrow> False | Bounds bs \<Rightarrow> 2 \<le> length bs)
      else True)"

text \<open>The set \<open>symptoms\<close> after both loops of \<open>get_symptoms\<close>, and the two flags.\<close>

definition disease_symptoms_added :: "detected list \<Rightarrow> bool" where
  "disease_symptoms_added ds = snd (disease_loop ds ([], False))"

definition biomarker_symptoms_added :: "detected list \<Rightarrow> biomarkers \<Rightarrow> bool" where
  "biomarker_symptoms_added ds bm = snd (biomarker_loop bm (fst (disease_loop ds ([], False)), False))"

definition symptom_union :: "detected list \<Rightarrow> biomarkers \<Rightarrow> string list" where
  "symptom_union ds bm = fst (biomarker_loop bm (fst (disease_loop ds ([], False)), False))"

text \<open>A candidate satisfies a registry entry when some (alias, variant) pair matches.\<close>

definition candidate_matches :: "string list \<Rightarrow> candidate \<Rightarrow> bool" where
  "candidate_matches kws c =
     (\<exists>keyword \<in> set kws. \<exists>variation \<in> set (context_variations (fst c)).
        fuzzy_match keyword variation)"

text \<open>The values observed for a key, in the order of the files and of each file's entries.\<close>

definition observed :: "string \<Rightarrow> biomarkers list \<Rightarrow> rat list" where
  "observed k files = map snd (filter (\<lambda>(b, v). b = k) (concat files))"

definition mean :: "rat list \<Rightarrow> rat" where
  "mean vs = sum_list vs / of_nat (length vs)"

text \<open>
  A number is a finite double when rounding leaves it as it is and its magnitude is below
  \<open>2^1024\<close>, the range of the doubles. The mean of a list is computed exactly when every
  partial sum and the quotient are finite doubles.
\<close>

definition exact :: "rat \<Rightarrow> bool" where
  "exact x = (round_double x = x \<and> (x = 0 \<or> floor_log2 \<bar>x\<bar> < 1024))"

fun exact_sum :: "rat \<Rightarrow> rat list \<Rightarrow> bool" where
  "exact_sum acc [] = True"
| "exact_sum acc (v # vs) = (exact (acc + v) \<and> exact_sum (acc + v) vs)"

definition exact_mean :: "rat list \<Rightarrow> bool" where
  "exact_mean vs = (exact_sum 0 vs \<and> exact (sum_list vs / of_nat (length vs)))"

text \<open>A rule fires when its conditions pass as its logic asks.\<close>

definition fires :: "disease_info \<Rightarrow> biomarkers \<Rightarrow> bool" where
  "fires info bm =
     (if logic info = ''AND'' then (\<forall>c \<in> set (conditions info). passes c bm)
      else if logic info = ''OR'' then (\<exists>c \<in> set (conditions info). passes c bm)
      else False)"

text \<open>
  How the merge loop stores the values observed for a key: nothing, the value itself, or
  the list once there are two or more.
\<close>

fun repr :: "rat list \<Rightarrow> reading option" where
  "repr [] = None"
| "repr [x] = Some (Single x)"
| "repr xs = Some (Many xs)"

section \<open>Range Classifier\<close>

text \<open>
  C6. In the registry glucose has the acceptable range 70 to 100 and the high threshold
  126. Classifying the value 115 gives the status "Above Acceptable", the value 126 gives
  "Significantly High" (the threshold itself counts as high), and the value 80 gives
  "Optimal".
\<close>

theorem glucose_classification_examples:
  "map_option (\<lambda>r. (acceptable_min r, acceptable_max r, high_threshold r))
     (map_of BIOMARKER_RULES ''glucose'') = Some (70, 100, 126) \<and>
   map_option status (analyze_biomarker ''glucose'' 115) = Some ''Above Acceptable'' \<and>
   map_option status (analyze_biomarker ''glucose'' 126) = Some ''Significantly High'' \<and>
   map_option status (analyze_biomarker ''glucose'' 80) = Some ''Optimal''"
  by (simp add: analyze_biomarker_def BIOMARKER_RULES_def mk_info_def classify_def
      calculate_optimal_range_def)

lemma classify_category: "snd (snd (classify rules v)) \<in> set status_categories"
  by (simp add: classify_def calculate_optimal_range_def status_categories_def Let_def)

lemma analyze_biomarker_registered:
  assumes "map_of BIOMARKER_RULES k = Some rules"
  shows "map_option status_category (analyze_biomarker k v) = Some (snd (snd (classify rules v)))"
  using assms by (simp add: analyze_biomarker_def split: prod.splits)

text \<open>
  C7. Classification is total and deterministic: for every registered key and every
  value, \<open>analyze_biomarker\<close> returns a record, and there is exactly one status category of
  the closed enumeration that it assigns. (Values are rationals, so every value is finite;
  the result is a function of the key and the value, so classifying twice gives the same
  record.)
\<close>

theorem classification_total_deterministic:
  assumes "k \<in> fst ` set BIOMARKER_RULES"
  shows "\<exists>!c. c \<in> set status_categories \<and>
           map_option status_category (analyze_biomarker k v) = Some c"
proof -
  from assms obtain rules where r: "map_of BIOMARKER_RULES k = Some rules"
    by (metis domD dom_map_of_conv_image_fst)
  show ?thesis
    using analyze_biomarker_registered [OF r, of v] classify_category [of rules v] by auto
qed

theorem classification_total_deterministic_witness:
  "''glucose'' \<in> fst ` set BIOMARKER_RULES \<and>
   ''above_optimal'' \<in> set status_categories \<and>
   map_option status_category (analyze_biomarker ''glucose'' 97) = Some ''above_optimal''"
proof -
  have k: "''glucose'' \<in> fst ` set BIOMARKER_RULES"
    by (simp add: BIOMARKER_RULES_def)
  have e: "map_option status_category (analyze_biomarker ''glucose'' 97) = Some ''above_optimal''"
    by (simp add: analyze_biomarker_def BIOMARKER_RULES_def mk_info_def classify_def
        calculate_optimal_range_def)
  from classification_total_deterministic [OF k, of 97] e k show ?thesis
    by (auto simp: status_categories_def)
qed

section \<open>Disease conditions\<close>

text \<open>
  C9. A single condition evaluates to false, without raising, when its biomarker is
  absent from the map. When the biomarker is present the operator is applied to its value
  and the threshold as written: \<open>>=\<close>, \<open><=\<close>, \<open>>\<close>, \<open><\<close>, \<open>==\<close> compare directly, and
  \<open>between\<close> holds exactly when the value lies between the two bounds, both included.
\<close>

theorem evaluate_condition_semantics:
  "(map_of bm (biomarker c) = None \<longrightarrow> evaluate_disease_condition c bm = Inr False) \<and>
   (map_of bm (biomarker c) = Some v \<longrightarrow>
      (operator c = ''>='' \<and> cond_value c = Num t \<longrightarrow>
         evaluate_disease_condition c bm = Inr (v \<ge> t)) \<and>
      (operator c = ''<='' \<and> cond_value c = Num t \<longrightarrow>
         evaluate_disease_condition c bm = Inr (v \<le> t)) \<and>
      (operator c = ''>'' \<and> cond_value c = Num t \<longrightarrow>
         evaluate_disease_condition c bm = Inr (v > t)) \<and>
      (operator c = ''<'' \<and> cond_value c = Num t \<longrightarrow>
         evaluate_disease_condition c bm = Inr (v < t)) \<and>
      (operator c = ''=='' \<and> cond_value c = Num t \<longrightarrow>
         evaluate_disease_condition c bm = Inr (v = t)) \<and>
      (operator c = ''between'' \<and> cond_value c = Bounds [lo, hi] \<longrightarrow>
         evaluate_disease_condition c bm = Inr (lo \<le> v \<and> v \<le> hi)))"
  by (simp add: evaluate_disease_condition_def)

theorem evaluate_condition_semantics_witness:
  "evaluate_disease_condition (cond ''tsh'' ''between'' (Bounds [3.0, 4.0])) [] = Inr False \<and>
   evaluate_disease_condition (cond ''tsh'' ''between'' (Bounds [3.0, 4.0])) [(''tsh'', 3)]
     = Inr True \<and>
   evaluate_disease_condition (cond ''tsh'' ''between'' (Bounds [3.0, 4.0])) [(''tsh'', 4)]
     = Inr True \<and>
   evaluate_disease_condition (cond ''tsh'' ''>'' (Num 4.0)) [(''tsh'', 4)] = Inr False"
  using
    evaluate_condition_semantics [of "[]" "cond ''tsh'' ''between'' (Bounds [3.0, 4.0])"]
    evaluate_condition_semantics
      [of "[(''tsh'', 3)]" "cond ''tsh'' ''between'' (Bounds [3.0, 4.0])" 3 0 3 4]
    evaluate_condition_semantics
      [of "[(''tsh'', 4)]" "cond ''tsh'' ''between'' (Bounds [3.0, 4.0])" 4 0 3 4]
    evaluate_condition_semantics [of "[(''tsh'', 4)]" "cond ''tsh'' ''>'' (Num 4.0)" 4 4]
  by (simp add: cond_def)

section \<open>Structured Source Adapter\<close>

text \<open>
  C3, at the input that shows the defect. The alias table maps \<open>ldl_cholesterol\<close> to the
  registry key \<open>ldl\<close>. A CSV row named "LDL Cholesterol" is normalised by
  \<open>parse_csv_file\<close> to \<open>ldl_cholesterol\<close>, but \<open>standardize_biomarkers\<close> returns a CSV table
  as it is, before the alias table is reached, whatever the extractor: the key stays
  \<open>ldl_cholesterol\<close> and is classified as unknown.
\<close>

theorem csv_alias_table_unreachable:
  "map_of name_mapping ''ldl_cholesterol'' = Some ''ldl'' \<and>
   parse_csv_file [(''LDL Cholesterol'', Some 145)] = [(''ldl_cholesterol'', 145)] \<and>
   standardize_biomarkers extract (Table [(''ldl_cholesterol'', 145)]) ''csv''
     = [(''ldl_cholesterol'', 145)] \<and>
   map category_of (map (\<lambda>(k, v). analyze_one k v) [(''ldl_cholesterol'', 145)])
     = [''unknown'']"
  apply (intro conjI)
     apply (simp add: name_mapping_def)
    apply code_simp
   apply (simp add: standardize_biomarkers_def)
  apply (simp add: analyze_one_def analyze_biomarker_def BIOMARKER_RULES_def category_of_def)
  done

section \<open>Recommendation Generator\<close>

text \<open>
  C2, at the input that shows the defect. When no rule fires, \<open>detect_diseases\<close> returns a
  fallback entry, never the empty list; on such a list \<open>generate_recommendations\<close> returns
  three empty buckets. The first two items of each general-wellness bucket are returned
  only for the empty list.
\<close>

theorem fallback_gets_no_general_wellness:
  "detect_diseases [] = Inr [everything_fine] \<and>
   generate_recommendations [everything_fine] [] = mk_template [] [] [] \<and>
   generate_recommendations [health_monitoring] [] = mk_template [] [] [] \<and>
   generate_recommendations [] [] =
     mk_template [''Annual physical examination'', ''Regular preventive screenings'']
       [''Maintain a balanced, nutritious diet'', ''Stay hydrated'']
       [''Regular physical activity'', ''Adequate sleep (7-9 hours)'']"
  apply (intro conjI)
     apply code_simp+
  done

section \<open>Symptom Aggregator\<close>

text \<open>
  C4 as stated fails: glucose 60 fires no rule, so the detected list is the fallback
  "Health Monitoring Recommended"; the value is below the acceptable minimum, glucose has
  no "low" symptoms, so the union stays empty while the biomarker flag is set, and the
  result is the general-monitoring set, which shares no message with the positive-health
  set.
\<close>

theorem empty_union_counterexample:
  "detect_diseases [(''glucose'', 60)] = Inr [health_monitoring] \<and>
   symptom_union [health_monitoring] [(''glucose'', 60)] = [] \<and>
   get_symptoms [health_monitoring] [(''glucose'', 60)] = monitor_fallback \<and>
   set monitor_fallback \<inter> set positive_health = {}"
  apply (intro conjI)
     apply code_simp+
  done

lemma set_update_positive: "set_update [] positive_health = positive_health"
  by (simp add: set_update_def positive_health_def)

lemma set_update_monitor: "set_update [] monitor_fallback = monitor_fallback"
  by (simp add: set_update_def monitor_fallback_def)

text \<open>
  C4, amended. For every input whose symptom union is empty, the returned list is the
  positive-health set when no disease-type condition was listed and no biomarker fell
  into a severity branch, and the general-monitoring set otherwise.
\<close>

theorem get_symptoms_empty_union:
  assumes "symptom_union ds bm = []"
  shows "get_symptoms ds bm =
           (if \<not> disease_symptoms_added ds \<and> \<not> biomarker_symptoms_added ds bm
            then positive_health else monitor_fallback)"
proof -
  obtain s1 f1 where d: "disease_loop ds ([], False) = (s1, f1)"
    by (cases "disease_loop ds ([], False)")
  obtain s2 f2 where b: "biomarker_loop bm (s1, False) = (s2, f2)"
    by (cases "biomarker_loop bm (s1, False)")
  from assms d b have e: "s2 = []"
    by (simp add: symptom_union_def)
  have lp: "take 15 positive_health = positive_health" "\<not> length positive_health < 3"
    by (simp_all add: positive_health_def)
  have lm: "take 15 monitor_fallback = monitor_fallback" "\<not> length monitor_fallback < 3"
    by (simp_all add: monitor_fallback_def)
  show ?thesis
    using d b e lp lm
    by (simp add: get_symptoms_def disease_symptoms_added_def biomarker_symptoms_added_def
        set_update_positive set_update_monitor)
qed

theorem get_symptoms_empty_union_witness:
  "symptom_union [everything_fine] [(''glucose'', 80)] = [] \<and>
   get_symptoms [everything_fine] [(''glucose'', 80)] = positive_health"
proof -
  have u: "symptom_union [everything_fine] [(''glucose'', 80)] = []"
    by code_simp
  have f: "\<not> disease_symptoms_added [everything_fine]"
    "\<not> biomarker_symptoms_added [everything_fine] [(''glucose'', 80)]"
    by code_simp+
  from get_symptoms_empty_union [OF u] f u show ?thesis by simp
qed

section \<open>Biomarker Matcher\<close>

lemma scan_variations_iff:
  "scan_variations keyword vs \<longleftrightarrow> (\<exists>variation \<in> set vs. fuzzy_match keyword variation)"
  by (induction vs) auto

lemma scan_keywords_iff:
  "scan_keywords kws vs \<longleftrightarrow>
     (\<exists>keyword \<in> set kws. \<exists>variation \<in> set vs. fuzzy_match keyword variation)"
  by (induction kws) (auto simp: scan_variations_iff)

lemma scan_candidates_find:
  "scan_candidates kws cands =
     map_option (\<lambda>(context, v, u). v) (find (candidate_matches kws) cands)"
  by (induction cands) (auto simp: scan_keywords_iff candidate_matches_def)

lemma match_loop_lookup:
  assumes "distinct (map fst rules)"
  shows "map_of (match_loop rules cands bm) k =
           (case map_of rules k of
              None \<Rightarrow> map_of bm k
            | Some info \<Rightarrow>
                (case scan_candidates (rule_keywords info) cands of
                   None \<Rightarrow> map_of bm k
                 | Some v \<Rightarrow> Some v))"
  using assms
proof (induction rules arbitrary: bm)
  case Nil
  then show ?case by simp
next
  case (Cons r rules)
  obtain key info where r: "r = (key, info)" by (cases r)
  from Cons.prems r have d: "distinct (map fst rules)" and n: "key \<notin> fst ` set rules"
    by auto
  from n have m: "map_of rules key = None"
    by (simp add: map_of_eq_None_iff)
  show ?case
    using Cons.IH [OF d] m r
    by (auto simp: update_conv' split: option.splits)
qed

lemma match_loop_append:
  "match_loop (pre @ post) cands bm = match_loop post cands (match_loop pre cands bm)"
  by (induction pre arbitrary: bm) auto

lemma distinct_biomarker_keys: "distinct (map fst BIOMARKER_RULES)"
  by (simp add: BIOMARKER_RULES_def)

text \<open>
  C5. The registry is scanned in its order and, for each key, the candidates in theirs:
  the value stored for a registry key is the value of the first candidate for which some
  (alias, variant) pair matches, and a key with no such candidate gets no value (the
  search for the key stops at that candidate). A value that a key has after any initial
  part of the registry has been scanned is the value it has at the end of the pass: it is
  not overwritten. The keys of the registry are distinct, as the keys of a dictionary are.
\<close>

theorem first_match_wins:
  assumes "distinct (map fst rules)"
  shows "map_of (match_loop rules cands []) k =
           (case map_of rules k of
              None \<Rightarrow> None
            | Some info \<Rightarrow>
                map_option (\<lambda>(context, v, u). v)
                  (find (candidate_matches (rule_keywords info)) cands)) \<and>
         (\<forall>pre post v. rules = pre @ post \<and> map_of (match_loop pre cands []) k = Some v
            \<longrightarrow> map_of (match_loop rules cands []) k = Some v)"
proof (intro conjI allI impI)
  show "map_of (match_loop rules cands []) k =
           (case map_of rules k of
              None \<Rightarrow> None
            | Some info \<Rightarrow>
                map_option (\<lambda>(context, v, u). v)
                  (find (candidate_matches (rule_keywords info)) cands))"
    using match_loop_lookup [OF assms, of cands "[]" k]
    by (auto simp: scan_candidates_find split: option.splits)
next
  fix pre post v
  assume a: "rules = pre @ post \<and> map_of (match_loop pre cands []) k = Some v"
  with assms have dpre: "distinct (map fst pre)" and dpost: "distinct (map fst post)"
    and disj: "fst ` set pre \<inter> fst ` set post = {}"
    by auto
  from a match_loop_lookup [OF dpre, of cands "[]" k] have "map_of pre k \<noteq> None"
    by (auto split: option.splits)
  then have "k \<in> fst ` set pre"
    by (simp add: map_of_eq_None_iff)
  with disj have "map_of post k = None"
    by (auto simp: map_of_eq_None_iff)
  with a match_loop_lookup [OF dpost, of cands "match_loop pre cands []" k]
  show "map_of (match_loop rules cands []) k = Some v"
    by (simp add: match_loop_append)
qed

theorem first_match_wins_witness:
  "distinct (map fst BIOMARKER_RULES) \<and>
   BIOMARKER_RULES = take 1 BIOMARKER_RULES @ drop 1 BIOMARKER_RULES \<and>
   map_of (match_loop (take 1 BIOMARKER_RULES)
     [(''hdl cholesterol'', 50, ''mg''), (''fasting g1ucose'', 101, ''mg''),
      (''glucose'', 102, ''mg'')] []) ''glucose'' = Some 101 \<and>
   map_of (match_loop BIOMARKER_RULES
     [(''hdl cholesterol'', 50, ''mg''), (''fasting g1ucose'', 101, ''mg''),
      (''glucose'', 102, ''mg'')] []) ''glucose'' = Some 101"
proof -
  let ?cands = "[(''hdl cholesterol'', 50, ''mg''), (''fasting g1ucose'', 101, ''mg''),
                 (''glucose'', 102, ''mg'')] :: candidate list"
  have p: "map_of (match_loop (take 1 BIOMARKER_RULES) ?cands []) ''glucose'' = Some 101"
    by code_simp
  have s: "BIOMARKER_RULES = take 1 BIOMARKER_RULES @ drop 1 BIOMARKER_RULES"
    by simp
  from first_match_wins [OF distinct_biomarker_keys, of ?cands "''glucose''"]
  have "\<forall>pre post v. BIOMARKER_RULES = pre @ post \<and>
          map_of (match_loop pre ?cands []) ''glucose'' = Some v
          \<longrightarrow> map_of (match_loop BIOMARKER_RULES ?cands []) ''glucose'' = Some v"
    by (rule conjunct2)
  with s p have "map_of (match_loop BIOMARKER_RULES ?cands []) ''glucose'' = Some 101"
    by blast
  with distinct_biomarker_keys s p show ?thesis
    by blast
qed

section \<open>Multi-Source Merger\<close>

lemma repr_snoc:
  "repr (xs @ [v]) =
     (case repr xs of None \<Rightarrow> Some (Single v)
      | Some (Single x) \<Rightarrow> Some (Many [x, v])
      | Some (Many vs) \<Rightarrow> Some (Many (vs @ [v])))"
  by (induction xs rule: repr.induct) auto

lemma merge_value_lookup:
  assumes "map_of all_bm b = repr xs"
  shows "map_of (merge_value b v all_bm) k = (if k = b then repr (xs @ [v]) else map_of all_bm k)"
  using assms by (auto simp: merge_value_def update_conv' repr_snoc split: option.splits reading.splits)

lemma merge_file_lookup:
  assumes "\<forall>k. map_of all_bm k = repr (f k)"
  shows "map_of (merge_file bm all_bm) k = repr (f k @ map snd (filter (\<lambda>(b, v). b = k) bm))"
  using assms
proof (induction bm arbitrary: all_bm f)
  case Nil
  then show ?case by (simp add: merge_file_def)
next
  case (Cons p bm)
  obtain b v where p: "p = (b, v)" by (cases p)
  let ?g = "\<lambda>k. if k = b then f k @ [v] else f k"
  from Cons.prems have "\<forall>k. map_of (merge_value b v all_bm) k = repr (?g k)"
    by (simp add: merge_value_lookup)
  from Cons.IH [OF this] p show ?case
    by (simp add: merge_file_def)
qed

lemma merge_files_lookup_gen:
  assumes "\<forall>k. map_of all_bm k = repr (f k)"
  shows "map_of (fold merge_file files all_bm) k = repr (f k @ observed k files)"
  using assms
proof (induction files arbitrary: all_bm f)
  case Nil
  then show ?case by (simp add: observed_def)
next
  case (Cons bm files)
  let ?g = "\<lambda>k. f k @ map snd (filter (\<lambda>(b, v). b = k) bm)"
  from Cons.prems have "\<forall>k. map_of (merge_file bm all_bm) k = repr (?g k)"
    by (simp add: merge_file_lookup)
  from Cons.IH [OF this] show ?case
    by (simp add: observed_def)
qed

lemma merge_files_lookup: "map_of (merge_files files) k = repr (observed k files)"
  using merge_files_lookup_gen [of "[]" "\<lambda>k. []" files k] by (simp add: merge_files_def)

lemma final_biomarkers_lookup:
  "map_of (final_biomarkers all_bm) k = map_option average (map_of all_bm k)"
  by (induction all_bm) (auto simp: final_biomarkers_def)

lemma merged_lookup:
  assumes "observed k files \<noteq> []"
  shows "map_of (final_biomarkers (collect_biomarkers files)) k =
           map_option average (repr (observed k files))"
proof -
  from assms obtain r where r: "repr (observed k files) = Some r"
    by (cases "observed k files" rule: repr.cases) auto
  then have m: "map_of (merge_files files) k = Some r"
    by (simp add: merge_files_lookup)
  then have "merge_files files \<noteq> []" by auto
  with m r show ?thesis
    by (simp add: collect_biomarkers_def final_biomarkers_lookup)
qed

lemma py_sum_exact:
  assumes "exact_sum acc vs"
  shows "py_sum acc vs = acc + sum_list vs"
  using assms by (induction vs arbitrary: acc) (auto simp: exact_def add.assoc)

lemma average_exact:
  assumes "repr vs = Some r" and "exact_mean vs"
  shows "average r = mean vs"
proof (cases vs rule: repr.cases)
  case 1
  with assms show ?thesis by simp
next
  case (2 x)
  with assms show ?thesis by (auto simp: average_def mean_def)
next
  case (3 x y zs)
  with assms(1) have r: "r = Many vs" by auto
  from assms(2) have "py_sum 0 vs = sum_list vs"
    and "round_double (sum_list vs / of_nat (length vs)) = sum_list vs / of_nat (length vs)"
    by (simp_all add: exact_mean_def exact_def py_sum_exact)
  with r show ?thesis
    by (simp add: average_def mean_def)
qed

text \<open>
  C8 as stated fails: the doubles of 0.1 and 0.7, observed in two files, merge to the
  double of 0.39999999999999997 (their sum rounds down to the double below 0.8), which is
  not their arithmetic mean and not the double of 0.4.
\<close>

theorem merged_mean_counterexample:
  "round_double 0.1 = 3602879701896397 / 36028797018963968 \<and>
   round_double 0.7 = 3152519739159347 / 4503599627370496 \<and>
   round_double 0.39999999999999997 = 7205759403792793 / 18014398509481984 \<and>
   observed ''tsh'' [[(''tsh'', round_double 0.1)], [(''tsh'', round_double 0.7)]]
     = [round_double 0.1, round_double 0.7] \<and>
   map_of (final_biomarkers (collect_biomarkers
       [[(''tsh'', round_double 0.1)], [(''tsh'', round_double 0.7)]])) ''tsh''
     = Some (round_double 0.39999999999999997) \<and>
   mean [round_double 0.1, round_double 0.7] \<noteq> round_double 0.39999999999999997 \<and>
   round_double 0.4 \<noteq> round_double 0.39999999999999997"
  apply (intro conjI)
        apply code_simp+
  done

text \<open>
  C8, amended. For every key observed in at least one file, a single observed value is
  kept unchanged, and the merged value is the arithmetic mean of the values observed for
  that key, in the order of the files, whenever every partial sum and the mean itself are
  finite doubles, so that \<open>sum(values) / len(values)\<close> rounds nowhere. In particular the
  values 90 and 110 merge to 100, and a single value 100 stays 100.
\<close>

theorem merged_value_is_exact_mean:
  "(observed k files = [v] \<longrightarrow>
      map_of (final_biomarkers (collect_biomarkers files)) k = Some v) \<and>
   (observed k files \<noteq> [] \<and> exact_mean (observed k files) \<longrightarrow>
      map_of (final_biomarkers (collect_biomarkers files)) k = Some (mean (observed k files))) \<and>
   observed ''glucose'' [[(''glucose'', 90)], [(''glucose'', 110)]] = [90, 110] \<and>
   map_of (final_biomarkers (collect_biomarkers [[(''glucose'', 90)], [(''glucose'', 110)]]))
     ''glucose'' = Some 100 \<and>
   observed ''glucose'' [[(''glucose'', 100)]] = [100] \<and>
   map_of (final_biomarkers (collect_biomarkers [[(''glucose'', 100)]])) ''glucose'' = Some 100"
proof (intro conjI impI)
  assume "observed k files = [v]"
  then show "map_of (final_biomarkers (collect_biomarkers files)) k = Some v"
    by (simp add: merged_lookup average_def)
next
  assume a: "observed k files \<noteq> [] \<and> exact_mean (observed k files)"
  then obtain r where r: "repr (observed k files) = Some r"
    by (cases "observed k files" rule: repr.cases) auto
  with a show "map_of (final_biomarkers (collect_biomarkers files)) k
                 = Some (mean (observed k files))"
    by (simp add: merged_lookup average_exact)
qed code_simp+

theorem merged_value_is_exact_mean_witness:
  "observed ''hdl'' [[(''tsh'', 3), (''hdl'', 40)], [(''tsh'', 4), (''ldl'', 90)], [(''tsh'', 8)]]
     = [40] \<and>
   map_of (final_biomarkers (collect_biomarkers
     [[(''tsh'', 3), (''hdl'', 40)], [(''tsh'', 4), (''ldl'', 90)], [(''tsh'', 8)]])) ''hdl''
     = Some 40 \<and>
   observed ''tsh'' [[(''tsh'', 3), (''hdl'', 40)], [(''tsh'', 4), (''ldl'', 90)], [(''tsh'', 8)]]
     = [3, 4, 8] \<and>
   exact_mean [3, 4, 8] \<and>
   map_of (final_biomarkers (collect_biomarkers
     [[(''tsh'', 3), (''hdl'', 40)], [(''tsh'', 4), (''ldl'', 90)], [(''tsh'', 8)]])) ''tsh''
     = Some 5"
proof -
  let ?files = "[[(''tsh'', 3), (''hdl'', 40)], [(''tsh'', 4), (''ldl'', 90)],
                 [(''tsh'', 8)]] :: biomarkers list"
  have h: "observed ''hdl'' ?files = [40]"
    by (simp add: observed_def)
  have o: "observed ''tsh'' ?files = [3, 4, 8]"
    by (simp add: observed_def)
  have x: "exact_mean [3, 4, 8]"
    by code_simp
  have m: "mean [3, 4, 8] = 5"
    by (simp add: mean_def)
  from merged_value_is_exact_mean [of "''hdl''" ?files 40] h
  have 1: "map_of (final_biomarkers (collect_biomarkers ?files)) ''hdl'' = Some 40"
    by blast
  from merged_value_is_exact_mean [of "''tsh''" ?files] o x m
  have 2: "map_of (final_biomarkers (collect_biomarkers ?files)) ''tsh'' = Some 5"
    by simp
  from h o x 1 2 show ?thesis
    by blast
qed

section \<open>Disease Rule Evaluator\<close>

lemma evaluate_well_typed:
  assumes "well_typed c"
  shows "evaluate_disease_condition c bm = Inr (passes c bm)"
proof (cases "map_of bm (biomarker c)")
  case None
  then show ?thesis
    by (simp add: evaluate_disease_condition_def passes_def)
next
  case (Some v)
  show ?thesis
  proof (cases "cond_value c")
    case (Num x)
    with Some assms show ?thesis
      by (auto simp: evaluate_disease_condition_def passes_def well_typed_def Let_def)
  next
    case (Bounds bs)
    show ?thesis
    proof (cases "operator c = ''between''")
      case True
      with assms Bounds have "2 \<le> length bs"
        by (simp add: well_typed_def)
      then obtain lo hi rest where "bs = lo # hi # rest"
        by (cases bs; cases "tl bs") auto
      with Some Bounds True show ?thesis
        by (simp add: evaluate_disease_condition_def passes_def)
    next
      case False
      with Some Bounds assms show ?thesis
        by (auto simp: evaluate_disease_condition_def passes_def well_typed_def Let_def
            split: if_splits)
    qed
  qed
qed

lemma condition_results_well_typed:
  assumes "\<forall>c \<in> set cs. well_typed c"
  shows "condition_results cs bm = Inr (map (\<lambda>c. passes c bm) cs)"
  using assms by (induction cs) (simp_all add: evaluate_well_typed)

lemma disease_detected_well_typed:
  assumes "\<forall>c \<in> set (conditions info). well_typed c"
  shows "disease_detected info bm = Inr (fires info bm)"
  using assms
  by (simp add: disease_detected_def condition_results_well_typed fires_def list_all_iff
      list_ex_iff)

lemma detect_loop_well_typed:
  assumes "\<forall>(k, info) \<in> set rules. \<forall>c \<in> set (conditions info). well_typed c"
  shows "detect_loop rules bm =
           Inr (map detected_of (filter (\<lambda>info. fires info bm) (map snd rules)))"
  using assms
proof (induction rules)
  case Nil
  then show ?case by simp
next
  case (Cons r rules)
  obtain k info where r: "r = (k, info)" by (cases r)
  with Cons.prems have w: "\<forall>c \<in> set (conditions info). well_typed c"
    and rest: "\<forall>(k, info) \<in> set rules. \<forall>c \<in> set (conditions info). well_typed c"
    by auto
  from Cons.IH [OF rest] r show ?case
    by (simp add: disease_detected_well_typed [OF w])
qed

lemma disease_rules_well_typed:
  "\<forall>(k, info) \<in> set DISEASE_RULES. \<forall>c \<in> set (conditions info). well_typed c"
  by code_simp

lemma disease_rule_names_distinct: "distinct (map (\<lambda>info. name info) (map snd DISEASE_RULES))"
  by code_simp

lemma disease_rule_names_not_fallback:
  "\<forall>(k, info) \<in> set DISEASE_RULES.
      name info \<noteq> ''Everything Fine'' \<and> name info \<noteq> ''Health Monitoring Recommended''"
  by code_simp

lemma detect_diseases_result:
  "detect_diseases bm =
     Inr (sort_key (\<lambda>d. priority_order (d_priority d))
           (let ds = map detected_of (filter (\<lambda>info. fires info bm) (map snd DISEASE_RULES))
            in if ds = [] then (if all_optimal bm then [everything_fine] else [health_monitoring])
               else ds))"
  by (simp add: detect_diseases_def detect_loop_well_typed [OF disease_rules_well_typed] Let_def)

lemma detected_of_member:
  assumes "(key, rule) \<in> set DISEASE_RULES"
  shows "detected_of rule \<in> set (map detected_of (filter (\<lambda>info. fires info bm) (map snd DISEASE_RULES)))
           \<longleftrightarrow> fires rule bm"
proof
  assume "fires rule bm"
  with assms show "detected_of rule \<in> set (map detected_of (filter (\<lambda>info. fires info bm) (map snd DISEASE_RULES)))"
    by force
next
  assume "detected_of rule \<in> set (map detected_of (filter (\<lambda>info. fires info bm) (map snd DISEASE_RULES)))"
  then have "\<exists>info \<in> set (map snd DISEASE_RULES).
               fires info bm \<and> detected_of info = detected_of rule"
    by force
  then obtain info where i: "info \<in> set (map snd DISEASE_RULES)" "fires info bm"
    "detected_of info = detected_of rule"
    by blast
  from i(3) have n: "name info = name rule"
    by (simp add: detected_of_def)
  from assms have r: "rule \<in> set (map snd DISEASE_RULES)"
    by force
  from disease_rule_names_distinct have "inj_on (\<lambda>info. name info) (set (map snd DISEASE_RULES))"
    by (simp only: distinct_map)
  with n i(1) r have "info = rule"
    by (auto dest: inj_onD)
  with i(2) show "fires rule bm" by simp
qed

lemma detected_member:
  assumes "(key, rule) \<in> set DISEASE_RULES"
  shows "\<exists>ds. detect_diseases bm = Inr ds \<and> (detected_of rule \<in> set ds \<longleftrightarrow> fires rule bm)"
proof -
  let ?fired = "map detected_of (filter (\<lambda>info. fires info bm) (map snd DISEASE_RULES))"
  from assms disease_rule_names_not_fallback
  have nf: "detected_of rule \<noteq> everything_fine" "detected_of rule \<noteq> health_monitoring"
    by (auto simp: detected_of_def everything_fine_def health_monitoring_def)
  show ?thesis
  proof (cases "?fired = []")
    case True
    with detected_of_member [OF assms, of bm] have "\<not> fires rule bm" by simp
    with True nf show ?thesis
      by (simp add: detect_diseases_result)
  next
    case False
    with detected_of_member [OF assms, of bm] show ?thesis
      by (simp add: detect_diseases_result)
  qed
qed

text \<open>
  C10. For every rule of the registry and every map, detection returns a list (it does
  not raise). An AND rule is in the result exactly when all its conditions pass, so if it
  fires on a map and one of its passing conditions fails on another map, it is not in the
  result for that other map. An OR rule is in the result exactly when at least one of its
  conditions passes.
\<close>

theorem rule_firing_monotone:
  assumes "(key, rule) \<in> set DISEASE_RULES"
  shows "\<exists>ds ds'. detect_diseases bm = Inr ds \<and> detect_diseases bm' = Inr ds' \<and>
     (logic rule = ''AND'' \<longrightarrow>
        (detected_of rule \<in> set ds \<longleftrightarrow> (\<forall>c \<in> set (conditions rule). passes c bm)) \<and>
        (detected_of rule \<in> set ds \<and> (\<exists>c \<in> set (conditions rule). passes c bm \<and> \<not> passes c bm')
           \<longrightarrow> detected_of rule \<notin> set ds')) \<and>
     (logic rule = ''OR'' \<longrightarrow>
        (detected_of rule \<in> set ds \<longleftrightarrow> (\<exists>c \<in> set (conditions rule). passes c bm)))"
proof -
  from detected_member [OF assms, of bm] obtain ds
    where ds: "detect_diseases bm = Inr ds" "detected_of rule \<in> set ds \<longleftrightarrow> fires rule bm"
    by blast
  from detected_member [OF assms, of bm'] obtain ds'
    where ds': "detect_diseases bm' = Inr ds'" "detected_of rule \<in> set ds' \<longleftrightarrow> fires rule bm'"
    by blast
  have "(logic rule = ''AND'' \<longrightarrow>
        (detected_of rule \<in> set ds \<longleftrightarrow> (\<forall>c \<in> set (conditions rule). passes c bm)) \<and>
        (detected_of rule \<in> set ds \<and> (\<exists>c \<in> set (conditions rule). passes c bm \<and> \<not> passes c bm')
           \<longrightarrow> detected_of rule \<notin> set ds')) \<and>
     (logic rule = ''OR'' \<longrightarrow>
        (detected_of rule \<in> set ds \<longleftrightarrow> (\<exists>c \<in> set (conditions rule). passes c bm)))"
    using ds(2) ds'(2) by (auto simp: fires_def)
  with ds(1) ds'(1) show ?thesis by blast
qed


theorem rule_firing_monotone_witness:
  "(''metabolic_syndrome_risk'',
    mk_rule ''Metabolic Syndrome Risk''
       [cond ''glucose'' ''>='' (Num 100),
        cond ''hdl'' ''<='' (Num 50),
        cond ''total_cholesterol'' ''>='' (Num 200)]
       ''AND'' ''High Risk''
       ''Combination of elevated glucose, low HDL, and high cholesterol suggests metabolic syndrome.''
       [''Abdominal weight gain'', ''Fatigue'', ''Increased thirst'',
        ''High blood pressure symptoms'']) \<in> set DISEASE_RULES \<and>
   passes (cond ''glucose'' ''>='' (Num 100))
     [(''glucose'', 110), (''hdl'', 40), (''total_cholesterol'', 220)] \<and>
   \<not> passes (cond ''glucose'' ''>='' (Num 100))
     [(''glucose'', 90), (''hdl'', 40), (''total_cholesterol'', 220)] \<and>
   ''Metabolic Syndrome Risk'' \<in> d_name ` set (projr (detect_diseases
     [(''glucose'', 110), (''hdl'', 40), (''total_cholesterol'', 220)])) \<and>
   ''Metabolic Syndrome Risk'' \<notin> d_name ` set (projr (detect_diseases
     [(''glucose'', 90), (''hdl'', 40), (''total_cholesterol'', 220)]))"
proof -
  let ?R = "mk_rule ''Metabolic Syndrome Risk''
       [cond ''glucose'' ''>='' (Num 100),
        cond ''hdl'' ''<='' (Num 50),
        cond ''total_cholesterol'' ''>='' (Num 200)]
       ''AND'' ''High Risk''
       ''Combination of elevated glucose, low HDL, and high cholesterol suggests metabolic syndrome.''
       [''Abdominal weight gain'', ''Fatigue'', ''Increased thirst'',
        ''High blood pressure symptoms'']"
  let ?bm = "[(''glucose'', 110), (''hdl'', 40), (''total_cholesterol'', 220)] :: biomarkers"
  let ?bm' = "[(''glucose'', 90), (''hdl'', 40), (''total_cholesterol'', 220)] :: biomarkers"
  have m: "(''metabolic_syndrome_risk'', ?R) \<in> set DISEASE_RULES"
    by (simp add: DISEASE_RULES_def)
  have l: "logic ?R = ''AND''"
    by (simp add: mk_rule_def)
  have c: "cond ''glucose'' ''>='' (Num 100) \<in> set (conditions ?R)"
    by (simp add: mk_rule_def)
  have a: "\<forall>c \<in> set (conditions ?R). passes c ?bm"
    by (simp add: mk_rule_def passes_def evaluate_disease_condition_def cond_def)
  have p: "passes (cond ''glucose'' ''>='' (Num 100)) ?bm"
    by (simp add: passes_def evaluate_disease_condition_def cond_def)
  have n: "\<not> passes (cond ''glucose'' ''>='' (Num 100)) ?bm'"
    by (simp add: passes_def evaluate_disease_condition_def cond_def)
  have nm: "d_name (detected_of ?R) = ''Metabolic Syndrome Risk''"
    by (simp add: detected_of_def mk_rule_def)
  from rule_firing_monotone [OF m, of ?bm ?bm'] obtain ds ds'
    where ds: "detect_diseases ?bm = Inr ds" and ds': "detect_diseases ?bm' = Inr ds'"
      and i: "detected_of ?R \<in> set ds \<longleftrightarrow> (\<forall>c \<in> set (conditions ?R). passes c ?bm)"
      and f: "detected_of ?R \<in> set ds \<and>
                (\<exists>c \<in> set (conditions ?R). passes c ?bm \<and> \<not> passes c ?bm')
              \<longrightarrow> detected_of ?R \<notin> set ds'"
    using l by blast
  from i a have in_ds: "detected_of ?R \<in> set ds" by blast
  with f c p n have out_ds': "detected_of ?R \<notin> set ds'" by blast
  from in_ds nm have x: "''Metabolic Syndrome Risk'' \<in> d_name ` set ds"
    by (metis imageI)
  have y: "''Metabolic Syndrome Risk'' \<notin> d_name ` set (projr (detect_diseases ?bm'))"
    by code_simp
  from m p n x y ds show ?thesis
    by simp
qed

section \<open>The report for a batch without readings\<close>

lemma sample_detected:
  "map_sum id (map d_name) (detect_diseases (final_biomarkers sample_data)) =
     Inr [''Metabolic Syndrome Risk'', ''Vitamin B12 Deficiency'', ''Kidney Dysfunction'',
          ''Prediabetes'', ''Elevated Blood Glucose'', ''Moderate Cardiovascular Risk'',
          ''High Cholesterol'', ''Iron Deficiency Anemia'', ''Vitamin D Deficiency'',
          ''Vitamin C Deficiency'', ''Stage 1 Hypertension'', ''Tachycardia (Rapid Heart Rate)'',
          ''Borderline Hypothyroidism'']"
  by code_simp

lemma sample_length: "length (final_biomarkers sample_data) = 16"
  by (simp add: final_biomarkers_def sample_data_def)

text \<open>
  C1 as stated fails: for one uploaded file in which nothing is matched the merged map is
  empty, and \<open>analyze_report\<close> then analyses its sample data: the report has 16
  classified biomarkers and thirteen detected conditions, none of them a fallback.
\<close>

theorem no_match_counterexample:
  "merge_files [[]] = [] \<and>
   map_sum id (length \<circ> r_biomarkers) (analyze_report [[]]) = Inr 16 \<and>
   map_sum id (map d_name \<circ> potential_diseases) (analyze_report [[]]) =
     Inr [''Metabolic Syndrome Risk'', ''Vitamin B12 Deficiency'', ''Kidney Dysfunction'',
          ''Prediabetes'', ''Elevated Blood Glucose'', ''Moderate Cardiovascular Risk'',
          ''High Cholesterol'', ''Iron Deficiency Anemia'', ''Vitamin D Deficiency'',
          ''Vitamin C Deficiency'', ''Stage 1 Hypertension'', ''Tachycardia (Rapid Heart Rate)'',
          ''Borderline Hypothyroidism'']"
proof -
  have e: "merge_files [[]] = []"
    by (simp add: merge_files_def merge_file_def)
  then have c: "collect_biomarkers [[]] = sample_data"
    by (simp add: collect_biomarkers_def)
  obtain ds where ds: "detect_diseases (final_biomarkers sample_data) = Inr ds"
    by (simp add: detect_diseases_result)
  with sample_detected have n: "map d_name ds =
     [''Metabolic Syndrome Risk'', ''Vitamin B12 Deficiency'', ''Kidney Dysfunction'',
          ''Prediabetes'', ''Elevated Blood Glucose'', ''Moderate Cardiovascular Risk'',
          ''High Cholesterol'', ''Iron Deficiency Anemia'', ''Vitamin D Deficiency'',
          ''Vitamin C Deficiency'', ''Stage 1 Hypertension'', ''Tachycardia (Rapid Heart Rate)'',
          ''Borderline Hypothyroidism'']"
    by simp
  from e c ds n sample_length show ?thesis
    by (simp add: analyze_report_def Let_def)
qed

text \<open>
  C1, amended. For every batch whose merged map is empty, \<open>analyze_report\<close> returns a
  report and raises nothing, but the report is that of the fixed sample data, which
  \<open>analyze_report\<close> puts in place of the empty map: 16 classified biomarkers and the
  conditions detected on the sample. Zero classified biomarkers and the fallback
  "Everything Fine" are what the classification loop and \<open>detect_diseases\<close> give on
  the empty map itself.
\<close>

theorem no_match_uses_sample_data:
  assumes "merge_files files = []"
  shows "(\<exists>r. analyze_report files = Inr r \<and>
              r_biomarkers r =
                map (\<lambda>(k, v). analyze_one k v) (final_biomarkers sample_data) \<and>
              length (r_biomarkers r) = 16 \<and>
              detect_diseases (final_biomarkers sample_data) = Inr (potential_diseases r) \<and>
              map d_name (potential_diseases r) =
                [''Metabolic Syndrome Risk'', ''Vitamin B12 Deficiency'', ''Kidney Dysfunction'',
                 ''Prediabetes'', ''Elevated Blood Glucose'', ''Moderate Cardiovascular Risk'',
                 ''High Cholesterol'', ''Iron Deficiency Anemia'', ''Vitamin D Deficiency'',
                 ''Vitamin C Deficiency'', ''Stage 1 Hypertension'',
                 ''Tachycardia (Rapid Heart Rate)'', ''Borderline Hypothyroidism'']) \<and>
         map (\<lambda>(k, v). analyze_one k v) (final_biomarkers []) = [] \<and>
         detect_diseases (final_biomarkers []) = Inr [everything_fine]"
proof (intro conjI)
  from assms have c: "collect_biomarkers files = sample_data"
    by (simp add: collect_biomarkers_def)
  obtain ds where ds: "detect_diseases (final_biomarkers sample_data) = Inr ds"
    by (simp add: detect_diseases_result)
  with sample_detected have n: "map d_name ds =
     [''Metabolic Syndrome Risk'', ''Vitamin B12 Deficiency'', ''Kidney Dysfunction'',
          ''Prediabetes'', ''Elevated Blood Glucose'', ''Moderate Cardiovascular Risk'',
          ''High Cholesterol'', ''Iron Deficiency Anemia'', ''Vitamin D Deficiency'',
          ''Vitamin C Deficiency'', ''Stage 1 Hypertension'', ''Tachycardia (Rapid Heart Rate)'',
          ''Borderline Hypothyroidism'']"
    by simp
  from c ds n sample_length
  show "\<exists>r. analyze_report files = Inr r \<and>
              r_biomarkers r =
                map (\<lambda>(k, v). analyze_one k v) (final_biomarkers sample_data) \<and>
              length (r_biomarkers r) = 16 \<and>
              detect_diseases (final_biomarkers sample_data) = Inr (potential_diseases r) \<and>
              map d_name (potential_diseases r) =
                [''Metabolic Syndrome Risk'', ''Vitamin B12 Deficiency'', ''Kidney Dysfunction'',
                 ''Prediabetes'', ''Elevated Blood Glucose'', ''Moderate Cardiovascular Risk'',
                 ''High Cholesterol'', ''Iron Deficiency Anemia'', ''Vitamin D Deficiency'',
                 ''Vitamin C Deficiency'', ''Stage 1 Hypertension'',
                 ''Tachycardia (Rapid Heart Rate)'', ''Borderline Hypothyroidism'']"
    by (simp add: analyze_report_def Let_def)
next
  show "map (\<lambda>(k, v). analyze_one k v) (final_biomarkers []) = []"
    by (simp add: final_biomarkers_def)
next
  show "detect_diseases (final_biomarkers []) = Inr [everything_fine]"
    by code_simp
qed

theorem no_match_uses_sample_data_witness:
  "merge_files [[], []] = [] \<and>
   map_sum id (length \<circ> r_biomarkers) (analyze_report [[], []]) = Inr 16 \<and>
   map_sum id files_processed (analyze_report [[], []]) = Inr 2"
proof -
  have e: "merge_files [[], []] = []"
    by (simp add: merge_files_def merge_file_def)
  from no_match_uses_sample_data [OF e] obtain r
    where r: "analyze_report [[], []] = Inr r" "length (r_biomarkers r) = 16"
    by blast
  then have "files_processed r = 2"
    by (auto simp: analyze_report_def Let_def split: sum.splits)
  with e r show ?thesis by simp
qed

end
